theory Spec2Isabelle
  imports Complex_Main "HOL-Library.Char_ord" "HOL-Library.List_Lexorder"
begin

section \<open>The expenses edge function: request router, validator, data access\<close>

text \<open>
  The development embeds the Deno edge function of the repository (the second document of
  \<^verbatim>\<open>src/unnamed/part_000\<close>): the validator \<^verbatim>\<open>validateExpense\<close>, the six operations on
  the expense table, the ledger writer \<^verbatim>\<open>createExpenseTransaction\<close> and the router passed to
  \<^verbatim>\<open>serve\<close>. The relational store and the identity provider are external services; they are
  modelled as an explicit \<open>world\<close> that every operation takes and returns.
\<close>

subsection \<open>JavaScript values\<close>

text \<open>
  An optional property of a JSON payload is an \<open>option\<close>. The source tests properties with
  \<^verbatim>\<open>!x\<close>: for a string that is true when the property is missing or the empty string, for a
  number when it is missing or zero.
\<close>

definition falsy_str :: "string option \<Rightarrow> bool" where
  "falsy_str v = (case v of None \<Rightarrow> True | Some s \<Rightarrow> s = [])"

definition falsy_num :: "rat option \<Rightarrow> bool" where
  "falsy_num v = (case v of None \<Rightarrow> True | Some n \<Rightarrow> n = 0)"

text \<open>\<^verbatim>\<open>s.startsWith(p)\<close>, \<^verbatim>\<open>s.includes(p)\<close> and \<^verbatim>\<open>s.split(c)\<close> for a one-character separator.\<close>

definition startsWith :: "string \<Rightarrow> string \<Rightarrow> bool" where
  "startsWith s p = (take (length p) s = p)"

fun includes_str :: "string \<Rightarrow> string \<Rightarrow> bool" where
  "includes_str [] p = (p = [])"
| "includes_str (x # xs) p = (startsWith (x # xs) p \<or> includes_str xs p)"

fun split :: "char \<Rightarrow> string \<Rightarrow> string list" where
  "split c [] = [[]]"
| "split c (x # xs) =
     (if x = c then [] # split c xs
      else (case split c xs of [] \<Rightarrow> [[x]] | p # ps \<Rightarrow> (x # p) # ps))"

subsection \<open>Regular expressions\<close>

text \<open>
  The two regular expressions of the source are anchored at both ends and are sequences of
  literal characters, counted character classes \<^verbatim>\<open>[..]{n}\<close> and \<^verbatim>\<open>[..]+\<close>. A class is a list
  of single characters and ranges. With the flag \<^verbatim>\<open>i\<close> a character also matches when its
  ASCII lower-case or upper-case form is in the class.
\<close>

datatype char_item = Single char | Range char char

fun in_item :: "char \<Rightarrow> char_item \<Rightarrow> bool" where
  "in_item x (Single c) = (x = c)"
| "in_item x (Range lo hi) = (lo \<le> x \<and> x \<le> hi)"

definition toLowerCase_char :: "char \<Rightarrow> char" where
  "toLowerCase_char c =
     (if CHR ''A'' \<le> c \<and> c \<le> CHR ''Z'' then char_of (of_char c + (32::nat)) else c)"

definition toUpperCase_char :: "char \<Rightarrow> char" where
  "toUpperCase_char c =
     (if CHR ''a'' \<le> c \<and> c \<le> CHR ''z'' then char_of (of_char c - (32::nat)) else c)"

definition in_class :: "bool \<Rightarrow> char_item list \<Rightarrow> char \<Rightarrow> bool" where
  "in_class icase items x =
     (\<exists>i \<in> set items. in_item x i \<or>
        (icase \<and> (in_item (toLowerCase_char x) i \<or> in_item (toUpperCase_char x) i)))"

datatype rx_item = Lit char | Exactly nat "char_item list" | Plus "char_item list"

fun rx_match :: "bool \<Rightarrow> rx_item list \<Rightarrow> string \<Rightarrow> bool" where
  "rx_match ic [] s = (s = [])"
| "rx_match ic (Lit c # r) s =
     (case s of [] \<Rightarrow> False | x # xs \<Rightarrow> x = c \<and> rx_match ic r xs)"
| "rx_match ic (Exactly 0 cls # r) s = rx_match ic r s"
| "rx_match ic (Exactly (Suc n) cls # r) s =
     (case s of [] \<Rightarrow> False
      | x # xs \<Rightarrow> in_class ic cls x \<and> rx_match ic (Exactly n cls # r) xs)"
| "rx_match ic (Plus cls # r) s =
     (case s of [] \<Rightarrow> False
      | x # xs \<Rightarrow> in_class ic cls x \<and> (rx_match ic (Plus cls # r) xs \<or> rx_match ic r xs))"

text \<open>\<^verbatim>\<open>/^[0-9a-f]{8}-[0-9a-f]{4}-[0-9a-f]{4}-[0-9a-f]{4}-[0-9a-f]{12}$/i\<close>\<close>

definition hex_class :: "char_item list" where
  "hex_class = [Range CHR ''0'' CHR ''9'', Range CHR ''a'' CHR ''f'']"

definition uuidRegex :: "rx_item list" where
  "uuidRegex =
     [Exactly 8 hex_class, Lit CHR ''-'', Exactly 4 hex_class, Lit CHR ''-'',
      Exactly 4 hex_class, Lit CHR ''-'', Exactly 4 hex_class, Lit CHR ''-'',
      Exactly 12 hex_class]"

definition uuidRegex_test :: "string \<Rightarrow> bool" where
  "uuidRegex_test s = rx_match True uuidRegex s"

text \<open>\<^verbatim>\<open>/^\/[a-zA-Z0-9-]+$/\<close>, the pattern the router applies to the sub-route.\<close>

definition idRouteRegex :: "rx_item list" where
  "idRouteRegex =
     [Lit CHR ''/'',
      Plus [Range CHR ''a'' CHR ''z'', Range CHR ''A'' CHR ''Z'', Range CHR ''0'' CHR ''9'',
            Single CHR ''-'']]"

definition matches_id_route :: "string \<Rightarrow> bool" where
  "matches_id_route s = rx_match False idRouteRegex s"

subsection \<open>Expenses and the validator\<close>

text \<open>
  \<^verbatim>\<open>Partial<Omit<Expense, 'id' | 'created_at'>>\<close> is the record \<open>payload\<close>; a stored
  \<^verbatim>\<open>Expense\<close> extends it by the two server-assigned columns. The field \<^verbatim>\<open>id\<close> is named
  \<open>expense_id\<close> (\<open>id\<close> is the identity function of HOL).
\<close>

record payload =
  date :: "string option"
  amount :: "rat option"
  category :: "string option"
  description :: "string option"
  payment_status :: "string option"
  payment_method :: "string option"
  invoice_number :: "string option"
  "notes" :: "string option"
  employee_id :: "string option"

record expense = payload +
  expense_id :: string
  created_at :: "string option"

record ExpenseValidation =
  isValid :: bool
  message :: "string option"
  status :: "nat option"

definition invalid :: "string \<Rightarrow> ExpenseValidation" where
  "invalid m = \<lparr>isValid = False, message = Some m, status = Some 400\<rparr>"

text \<open>
  \<^verbatim>\<open>expense.amount <= 0\<close> is false for a missing amount (\<^verbatim>\<open>undefined <= 0\<close>), and
  \<^verbatim>\<open>uuidRegex.test(undefined)\<close> tests the string \<^verbatim>\<open>"undefined"\<close>, which does not match.
\<close>

definition num_le_zero :: "rat option \<Rightarrow> bool" where
  "num_le_zero v = (case v of None \<Rightarrow> False | Some n \<Rightarrow> n \<le> 0)"

definition uuidRegex_test_opt :: "string option \<Rightarrow> bool" where
  "uuidRegex_test_opt v = (case v of None \<Rightarrow> False | Some s \<Rightarrow> uuidRegex_test s)"

definition validateExpense :: "'a payload_scheme \<Rightarrow> ExpenseValidation" where
  "validateExpense expense =
     (if falsy_str (date expense) then invalid ''Expense date is required''
      else if falsy_num (amount expense) \<or> num_le_zero (amount expense)
        then invalid ''Amount must be a positive number''
      else if falsy_str (category expense) then invalid ''Category is required''
      else if falsy_str (description expense) then invalid ''Description is required''
      else if falsy_str (employee_id expense) then invalid ''Employee ID is required''
      else if \<not> uuidRegex_test_opt (employee_id expense)
        then invalid ''Invalid employee ID format''
      else \<lparr>isValid = True, message = None, status = None\<rparr>)"

text \<open>
  The shape the validator is documented to accept: five groups of 8, 4, 4, 4 and 12
  hexadecimal digits of either case, separated by hyphens.
\<close>

definition hex_digit :: "char \<Rightarrow> bool" where
  "hex_digit c = (c \<in> set ''0123456789abcdefABCDEF'')"

definition uuid_shape :: "string \<Rightarrow> bool" where
  "uuid_shape s =
     (length s = 36 \<and>
      list_all hex_digit (take 8 s) \<and> s ! 8 = CHR ''-'' \<and>
      list_all hex_digit (take 4 (drop 9 s)) \<and> s ! 13 = CHR ''-'' \<and>
      list_all hex_digit (take 4 (drop 14 s)) \<and> s ! 18 = CHR ''-'' \<and>
      list_all hex_digit (take 4 (drop 19 s)) \<and> s ! 23 = CHR ''-'' \<and>
      list_all hex_digit (drop 24 s))"

subsection \<open>Errors and responses\<close>

text \<open>
  Every value the program throws or receives as an error is an object with a message: a
  store error (which also has a code), an \<^verbatim>\<open>Error\<close>, or the literal
  \<^verbatim>\<open>{ message: ... }\<close>. For such a value \<^verbatim>\<open>handleError\<close> takes its first branch.
\<close>

record err =
  err_message :: string
  err_code :: "string option"

definition Error_of :: "string \<Rightarrow> err" where
  "Error_of m = \<lparr>err_message = m, err_code = None\<rparr>"

record employee =
  emp_id :: string
  emp_name :: string

datatype json_data =
    ExpenseWithEmployee expense "employee option"
  | ExpensesWithEmployees "(expense \<times> employee option) list"
  | Expenses "expense list"
  | Categories "string list"
  | Null

text \<open>
  The JSON bodies: \<^verbatim>\<open>{ data }\<close>, \<^verbatim>\<open>{ error, details? }\<close> and the placeholder
  \<^verbatim>\<open>{ summary: {} }\<close>. Headers are constant and left out.
\<close>

datatype body =
    Data json_data
  | Error string "err option"
  | Summary

record response =
  resp_status :: nat
  resp_body :: body

text \<open>
  \<^verbatim>\<open>new Response(body, { status })\<close> with a body that is not null, as every call of the
  source has it (the body is the result of \<^verbatim>\<open>JSON.stringify\<close>). The constructor of the Fetch
  standard throws a \<^verbatim>\<open>RangeError\<close> for a status outside 200..599 and a \<^verbatim>\<open>TypeError\<close> when
  the status is a null body status (101, 103, 204, 205, 304) and a body is given.
\<close>

definition null_body_status :: "nat \<Rightarrow> bool" where
  "null_body_status st = (st \<in> {101, 103, 204, 205, 304})"

definition new_Response :: "body \<Rightarrow> nat \<Rightarrow> err + response" where
  "new_Response b st =
     (if st < 200 \<or> 599 < st
        then Inl (Error_of ''The status provided is outside the range [200, 599].'')
      else if null_body_status st
        then Inl (Error_of ''Response with null body status cannot have body'')
      else Inr \<lparr>resp_status = st, resp_body = b\<rparr>)"

definition handleError :: "err \<Rightarrow> body" where
  "handleError error = Error (err_message error) (Some error)"

definition createJsonResponse :: "body \<Rightarrow> nat \<Rightarrow> err + response" where
  "createJsonResponse data st = new_Response data st"

definition successResponse :: "json_data \<Rightarrow> nat \<Rightarrow> err + response" where
  "successResponse data st = createJsonResponse (Data data) st"

definition errorResponse :: "err \<Rightarrow> nat \<Rightarrow> err + response" where
  "errorResponse error st = createJsonResponse (handleError error) st"

definition methodNotAllowed :: "err + response" where
  "methodNotAllowed = errorResponse (Error_of ''Method not allowed'') 405"

definition unauthorized :: "err + response" where
  "unauthorized = errorResponse (Error_of ''Unauthorized'') 401"

definition notFound :: "string \<Rightarrow> err + response" where
  "notFound resource = errorResponse (Error_of (resource @ '' not found'')) 404"

subsection \<open>The store and the identity provider\<close>

record TransactionData =
  tx_amount :: "rat option"
  tx_payment_method :: string
  tx_payment_status :: string
  tx_employee_id :: "string option"
  entity_id :: string
  entity_type :: string
  tx_description :: string
  updated_at :: string

datatype call =
    AuthGetUser
  | SelectExpenses
  | SelectExpenseById
  | SelectEmployeesIn
  | SelectEmployeeById
  | InsertExpense
  | UpdateExpense
  | DeleteExpense
  | InsertTransaction

text \<open>
  The world of one request: the environment variables, the three tables, the sessions the
  identity provider knows (access token, user id), the id and the time the server assigns
  next, the calls that fail (\<open>faults\<close> gives the error a call is answered with), and the log
  of the calls made so far.
\<close>

record world =
  SUPABASE_URL :: "string option"
  SUPABASE_SERVICE_ROLE_KEY :: "string option"
  SUPABASE_ANON_KEY :: "string option"
  expenses :: "expense list"
  employees :: "employee list"
  transactions :: "TransactionData list"
  users :: "(string \<times> string) list"
  next_id :: string
  now :: string
  faults :: "call \<Rightarrow> err option"
  calls :: "call list"

definition createServiceClient :: "world \<Rightarrow> err + unit" where
  "createServiceClient w =
     (if falsy_str (SUPABASE_URL w) \<or> falsy_str (SUPABASE_SERVICE_ROLE_KEY w)
        then Inl (Error_of ''Missing Supabase URL or service role key environment variables'')
      else Inr ())"

definition createAnonClient :: "world \<Rightarrow> err + unit" where
  "createAnonClient w =
     (if falsy_str (SUPABASE_URL w) \<or> falsy_str (SUPABASE_ANON_KEY w)
        then Inl (Error_of ''Missing Supabase URL or anon key environment variables'')
      else Inr ())"

definition logged :: "call \<Rightarrow> world \<Rightarrow> world" where
  "logged c w = w\<lparr>calls := calls w @ [c]\<rparr>"

text \<open>\<^verbatim>\<open>.single()\<close>: exactly one row, or the error with code PGRST116.\<close>

definition single :: "'a list \<Rightarrow> err + 'a" where
  "single rows =
     (case rows of
        [r] \<Rightarrow> Inr r
      | _ \<Rightarrow> Inl \<lparr>err_message = ''JSON object requested, multiple (or no) rows returned'',
                  err_code = Some ''PGRST116''\<rparr>)"

definition auth_getUser :: "string \<Rightarrow> world \<Rightarrow> string option \<times> world" where
  "auth_getUser token w =
     (case faults w AuthGetUser of
        Some e \<Rightarrow> (None, logged AuthGetUser w)
      | None \<Rightarrow> (map_of (users w) token, logged AuthGetUser w))"

definition select_expense_by_id :: "string \<Rightarrow> world \<Rightarrow> (err + expense) \<times> world" where
  "select_expense_by_id i w =
     (case faults w SelectExpenseById of
        Some e \<Rightarrow> (Inl e, logged SelectExpenseById w)
      | None \<Rightarrow> (single (filter (\<lambda>r. expense_id r = i) (expenses w)),
                 logged SelectExpenseById w))"

definition select_employee_by_id ::
  "string option \<Rightarrow> world \<Rightarrow> (err + employee) \<times> world" where
  "select_employee_by_id i w =
     (case faults w SelectEmployeeById of
        Some e \<Rightarrow> (Inl e, logged SelectEmployeeById w)
      | None \<Rightarrow> (single (filter (\<lambda>e. Some (emp_id e) = i) (employees w)),
                 logged SelectEmployeeById w))"

definition select_employees_in ::
  "string list \<Rightarrow> world \<Rightarrow> (err + employee list) \<times> world" where
  "select_employees_in ids w =
     (case faults w SelectEmployeesIn of
        Some e \<Rightarrow> (Inl e, logged SelectEmployeesIn w)
      | None \<Rightarrow> (Inr (filter (\<lambda>e. emp_id e \<in> set ids) (employees w)),
                 logged SelectEmployeesIn w))"

text \<open>The inserted row is the payload with the id and the creation time of the server.\<close>

definition new_row :: "payload \<Rightarrow> world \<Rightarrow> expense" where
  "new_row p w =
     \<lparr>date = date p, amount = amount p, category = category p,
      description = description p, payment_status = payment_status p,
      payment_method = payment_method p, invoice_number = invoice_number p,
      notes = notes p, employee_id = employee_id p,
      expense_id = next_id w, created_at = Some (now w)\<rparr>"

definition insert_expense :: "payload \<Rightarrow> world \<Rightarrow> (err + expense) \<times> world" where
  "insert_expense p w =
     (case faults w InsertExpense of
        Some e \<Rightarrow> (Inl e, logged InsertExpense w)
      | None \<Rightarrow> (Inr (new_row p w),
                 logged InsertExpense (w\<lparr>expenses := expenses w @ [new_row p w]\<rparr>)))"

text \<open>An update sets the columns the payload supplies and keeps the others.\<close>

definition supplied :: "'a option \<Rightarrow> 'a option \<Rightarrow> 'a option" where
  "supplied new old = (case new of None \<Rightarrow> old | Some v \<Rightarrow> Some v)"

definition apply_updates :: "payload \<Rightarrow> expense \<Rightarrow> expense" where
  "apply_updates u r =
     r\<lparr>date := supplied (date u) (date r),
       amount := supplied (amount u) (amount r),
       category := supplied (category u) (category r),
       description := supplied (description u) (description r),
       payment_status := supplied (payment_status u) (payment_status r),
       payment_method := supplied (payment_method u) (payment_method r),
       invoice_number := supplied (invoice_number u) (invoice_number r),
       notes := supplied (notes u) (notes r),
       employee_id := supplied (employee_id u) (employee_id r)\<rparr>"

definition update_expense ::
  "string \<Rightarrow> payload \<Rightarrow> world \<Rightarrow> (err + expense) \<times> world" where
  "update_expense i u w =
     (case faults w UpdateExpense of
        Some e \<Rightarrow> (Inl e, logged UpdateExpense w)
      | None \<Rightarrow>
          (case single (map (apply_updates u) (filter (\<lambda>r. expense_id r = i) (expenses w))) of
             Inl e \<Rightarrow> (Inl e, logged UpdateExpense w)
           | Inr r \<Rightarrow>
               (Inr r,
                logged UpdateExpense
                  (w\<lparr>expenses :=
                       map (\<lambda>x. if expense_id x = i then apply_updates u x else x)
                         (expenses w)\<rparr>))))"

definition delete_expense :: "string \<Rightarrow> world \<Rightarrow> err option \<times> world" where
  "delete_expense i w =
     (case faults w DeleteExpense of
        Some e \<Rightarrow> (Some e, logged DeleteExpense w)
      | None \<Rightarrow>
          (None,
           logged DeleteExpense
             (w\<lparr>expenses := filter (\<lambda>r. expense_id r \<noteq> i) (expenses w)\<rparr>)))"

definition insert_transaction :: "TransactionData \<Rightarrow> world \<Rightarrow> err option \<times> world" where
  "insert_transaction t w =
     (case faults w InsertTransaction of
        Some e \<Rightarrow> (Some e, logged InsertTransaction w)
      | None \<Rightarrow>
          (None, logged InsertTransaction (w\<lparr>transactions := transactions w @ [t]\<rparr>)))"

text \<open>
  The list query: \<^verbatim>\<open>.order("date", { ascending: false })\<close> followed by the filters that
  are set. A comparison with a missing date is false; rows with equal dates keep their
  table order.
\<close>

record ExpenseFilters =
  category_filter :: "string option"
  startDate :: "string option"
  endDate :: "string option"
  paymentStatus :: "string option"

definition date_before :: "expense \<Rightarrow> expense \<Rightarrow> bool" where
  "date_before a b =
     (case date a of
        None \<Rightarrow> True
      | Some x \<Rightarrow> (case date b of None \<Rightarrow> False | Some y \<Rightarrow> y \<le> x))"

fun insert_by_date :: "expense \<Rightarrow> expense list \<Rightarrow> expense list" where
  "insert_by_date r [] = [r]"
| "insert_by_date r (x # xs) =
     (if date_before r x then r # x # xs else x # insert_by_date r xs)"

definition order_by_date_desc :: "expense list \<Rightarrow> expense list" where
  "order_by_date_desc rows = foldr insert_by_date rows []"

definition eq_filter :: "string option \<Rightarrow> string option \<Rightarrow> bool" where
  "eq_filter f v = (falsy_str f \<or> v = f)"

definition gte_filter :: "string option \<Rightarrow> string option \<Rightarrow> bool" where
  "gte_filter f v =
     (falsy_str f \<or>
      (case f of None \<Rightarrow> False
       | Some lo \<Rightarrow> (case v of None \<Rightarrow> False | Some x \<Rightarrow> lo \<le> x)))"

definition lte_filter :: "string option \<Rightarrow> string option \<Rightarrow> bool" where
  "lte_filter f v =
     (falsy_str f \<or>
      (case f of None \<Rightarrow> False
       | Some hi \<Rightarrow> (case v of None \<Rightarrow> False | Some x \<Rightarrow> x \<le> hi)))"

definition query_expenses :: "ExpenseFilters \<Rightarrow> expense list \<Rightarrow> expense list" where
  "query_expenses filters rows =
     filter (\<lambda>r. eq_filter (category_filter filters) (category r) \<and>
                 gte_filter (startDate filters) (date r) \<and>
                 lte_filter (endDate filters) (date r) \<and>
                 eq_filter (paymentStatus filters) (payment_status r))
       (order_by_date_desc rows)"

definition select_expenses ::
  "ExpenseFilters \<Rightarrow> world \<Rightarrow> (err + expense list) \<times> world" where
  "select_expenses filters w =
     (case faults w SelectExpenses of
        Some e \<Rightarrow> (Inl e, logged SelectExpenses w)
      | None \<Rightarrow> (Inr (query_expenses filters (expenses w)), logged SelectExpenses w))"

subsection \<open>The operations\<close>

text \<open>
  Each operation is one \<^verbatim>\<open>try { ... } catch (error) { return errorResponse(error) }\<close>. The
  function \<open>f_try\<close> is the body of the \<^verbatim>\<open>try\<close> of \<open>f\<close>: \<open>Inl\<close> is a value thrown inside it,
  \<open>Inr\<close> the response it returns. In the result of an operation \<open>Inl\<close> is a value thrown
  out of the operation.
\<close>

definition catch_errorResponse ::
  "(err + response) \<times> world \<Rightarrow> (err + response) \<times> world" where
  "catch_errorResponse r =
     (case r of
        (Inl error, w) \<Rightarrow> (errorResponse error 400, w)
      | (Inr resp, w) \<Rightarrow> (Inr resp, w))"

text \<open>
  \<^verbatim>\<open>errorResponse({ message: validation.message }, validation.status)\<close>: a missing message
  prints as \<^verbatim>\<open>undefined\<close>, a missing status is the default 400.
\<close>

definition validation_response :: "ExpenseValidation \<Rightarrow> err + response" where
  "validation_response validation =
     errorResponse
       (Error_of (case message validation of None \<Rightarrow> ''undefined'' | Some m \<Rightarrow> m))
       (case status validation of None \<Rightarrow> 400 | Some st \<Rightarrow> st)"

definition expenseCategories :: "string list" where
  "expenseCategories =
     [''utilities'', ''rent'', ''salaries'', ''maintenance'', ''supplies'', ''taxes'',
      ''insurance'', ''other'']"

definition getExpenseCategories :: "world \<Rightarrow> (err + response) \<times> world" where
  "getExpenseCategories w =
     catch_errorResponse (successResponse (Categories expenseCategories) 200, w)"

text \<open>
  \<^verbatim>\<open>[...new Set(expenses.map(e => e.employee_id).filter(Boolean))]\<close>: the employee ids
  that are set, each once, in the order of their first occurrence.
\<close>

definition employeeIds_of :: "expense list \<Rightarrow> string list" where
  "employeeIds_of rows =
     rev (remdups (rev (concat (map (\<lambda>e. case employee_id e of
                                             None \<Rightarrow> []
                                           | Some i \<Rightarrow> if i = [] then [] else [i]) rows))))"

text \<open>\<^verbatim>\<open>new Map(employees.map(emp => [emp.id, ...]))\<close>: the last entry of an id wins.\<close>

definition employeeMap_get :: "employee list \<Rightarrow> string option \<Rightarrow> employee option" where
  "employeeMap_get emps i =
     (if falsy_str i then None
      else (case i of None \<Rightarrow> None
            | Some k \<Rightarrow> map_of (rev (map (\<lambda>e. (emp_id e, e)) emps)) k))"

definition getExpenses_try :: "ExpenseFilters \<Rightarrow> world \<Rightarrow> (err + response) \<times> world" where
  "getExpenses_try filters w =
     (case createServiceClient w of
        Inl e \<Rightarrow> (Inl e, w)
      | Inr _ \<Rightarrow>
          (case select_expenses filters w of
             (Inl error, w1) \<Rightarrow> (Inl error, w1)
           | (Inr rows, w1) \<Rightarrow>
               if rows \<noteq> [] then
                 (if employeeIds_of rows = [] then (successResponse (Expenses rows) 200, w1)
                  else
                    (case select_employees_in (employeeIds_of rows) w1 of
                       (Inl employeeError, w2) \<Rightarrow> (successResponse (Expenses rows) 200, w2)
                     | (Inr emps, w2) \<Rightarrow>
                         (successResponse
                            (ExpensesWithEmployees
                               (map (\<lambda>e. (e, employeeMap_get emps (employee_id e))) rows))
                            200,
                          w2)))
               else (successResponse (Expenses []) 200, w1)))"

definition getExpenses :: "ExpenseFilters \<Rightarrow> world \<Rightarrow> (err + response) \<times> world" where
  "getExpenses filters w = catch_errorResponse (getExpenses_try filters w)"

definition getExpenseById_try :: "string \<Rightarrow> world \<Rightarrow> (err + response) \<times> world" where
  "getExpenseById_try i w =
     (case createServiceClient w of
        Inl e \<Rightarrow> (Inl e, w)
      | Inr _ \<Rightarrow>
          (case select_expense_by_id i w of
             (Inl error, w1) \<Rightarrow>
               if err_code error = Some ''PGRST116'' then (notFound ''Expense'', w1)
               else (Inl error, w1)
           | (Inr expense, w1) \<Rightarrow>
               (case select_employee_by_id (employee_id expense) w1 of
                  (Inl employeeError, w2) \<Rightarrow> (Inl employeeError, w2)
                | (Inr emp, w2) \<Rightarrow>
                    (successResponse (ExpenseWithEmployee expense (Some emp)) 200, w2))))"

definition getExpenseById :: "string \<Rightarrow> world \<Rightarrow> (err + response) \<times> world" where
  "getExpenseById i w = catch_errorResponse (getExpenseById_try i w)"

text \<open>
  The ledger row. In a template string a missing property prints as \<^verbatim>\<open>undefined\<close>;
  \<^verbatim>\<open>expense.payment_method || "cash"\<close> replaces a missing or empty method.
\<close>

definition template_str :: "string option \<Rightarrow> string" where
  "template_str v = (case v of None \<Rightarrow> ''undefined'' | Some s \<Rightarrow> s)"

definition transactionData :: "expense \<Rightarrow> string option \<Rightarrow> world \<Rightarrow> TransactionData" where
  "transactionData expense userId w =
     \<lparr>tx_amount = amount expense,
      tx_payment_method =
        (case payment_method expense of
           None \<Rightarrow> ''cash'' | Some m \<Rightarrow> if m = [] then ''cash'' else m),
      tx_payment_status = ''completed'',
      tx_employee_id = userId,
      entity_id = expense_id expense,
      entity_type = ''expense'',
      tx_description =
        ''Expense: '' @ template_str (description expense) @ '' ('' @
        template_str (category expense) @ '')'',
      updated_at = now w\<rparr>"

text \<open>The result \<open>Some error\<close> is the error \<^verbatim>\<open>createExpenseTransaction\<close> throws.\<close>

definition createExpenseTransaction ::
  "expense \<Rightarrow> string option \<Rightarrow> world \<Rightarrow> err option \<times> world" where
  "createExpenseTransaction expense userId w =
     (case createServiceClient w of
        Inl e \<Rightarrow> (Some e, w)
      | Inr _ \<Rightarrow> insert_transaction (transactionData expense userId w) w)"

definition createExpense_try ::
  "payload \<Rightarrow> string \<Rightarrow> world \<Rightarrow> (err + response) \<times> world" where
  "createExpense_try expense0 userId w =
     (case createServiceClient w of
        Inl e \<Rightarrow> (Inl e, w)
      | Inr _ \<Rightarrow>
          if \<not> isValid (validateExpense expense0)
            then (validation_response (validateExpense expense0), w)
          else
            let expense =
                  (if falsy_str (payment_status expense0)
                     then expense0\<lparr>payment_status := Some ''pending''\<rparr> else expense0)
            in
            (case insert_expense expense w of
               (Inl error, w1) \<Rightarrow> (Inl error, w1)
             | (Inr newExpense, w1) \<Rightarrow>
                 (case select_employee_by_id (employee_id newExpense) w1 of
                    (Inl employeeError, w2) \<Rightarrow> (Inl employeeError, w2)
                  | (Inr emp, w2) \<Rightarrow>
                      (successResponse (ExpenseWithEmployee newExpense (Some emp)) 201,
                       if payment_status expense = Some ''completed''
                         then snd (createExpenseTransaction newExpense (Some userId) w2)
                       else w2))))"

definition createExpense :: "payload \<Rightarrow> string \<Rightarrow> world \<Rightarrow> (err + response) \<times> world" where
  "createExpense expense userId w = catch_errorResponse (createExpense_try expense userId w)"

definition updateExpense_try ::
  "string \<Rightarrow> payload \<Rightarrow> world \<Rightarrow> (err + response) \<times> world" where
  "updateExpense_try i updates w =
     (case createServiceClient w of
        Inl e \<Rightarrow> (Inl e, w)
      | Inr _ \<Rightarrow>
          if \<not> isValid (validateExpense updates)
            then (validation_response (validateExpense updates), w)
          else
            (case select_expense_by_id i w of
               (Inl existingError, w1) \<Rightarrow>
                 if err_code existingError = Some ''PGRST116'' then (notFound ''Expense'', w1)
                 else (Inl existingError, w1)
             | (Inr existingExpense, w1) \<Rightarrow>
                 (case update_expense i updates w1 of
                    (Inl error, w2) \<Rightarrow> (Inl error, w2)
                  | (Inr updatedExpense, w2) \<Rightarrow>
                      (case select_employee_by_id (employee_id updatedExpense) w2 of
                         (Inl employeeError, w3) \<Rightarrow> (Inl employeeError, w3)
                       | (Inr emp, w3) \<Rightarrow>
                           (successResponse
                              (ExpenseWithEmployee updatedExpense (Some emp)) 200,
                            if payment_status updates = Some ''completed'' \<and>
                               payment_status existingExpense \<noteq> Some ''completed''
                              then snd (createExpenseTransaction updatedExpense
                                          (employee_id existingExpense) w3)
                            else w3)))))"

definition updateExpense :: "string \<Rightarrow> payload \<Rightarrow> world \<Rightarrow> (err + response) \<times> world" where
  "updateExpense i updates w = catch_errorResponse (updateExpense_try i updates w)"

definition deleteExpense_try :: "string \<Rightarrow> world \<Rightarrow> (err + response) \<times> world" where
  "deleteExpense_try i w =
     (case createServiceClient w of
        Inl e \<Rightarrow> (Inl e, w)
      | Inr _ \<Rightarrow>
          (case select_expense_by_id i w of
             (Inl existingError, w1) \<Rightarrow>
               if err_code existingError = Some ''PGRST116'' then (notFound ''Expense'', w1)
               else (Inl existingError, w1)
           | (Inr existingExpense, w1) \<Rightarrow>
               if payment_status existingExpense = Some ''completed''
                 then (errorResponse
                         (Error_of ''Cannot delete an expense with completed payment'') 400,
                       w1)
               else
                 (case delete_expense i w1 of
                    (Some error, w2) \<Rightarrow> (Inl error, w2)
                  | (None, w2) \<Rightarrow> (successResponse Null 204, w2))))"

definition deleteExpense :: "string \<Rightarrow> world \<Rightarrow> (err + response) \<times> world" where
  "deleteExpense i w = catch_errorResponse (deleteExpense_try i w)"

subsection \<open>The request router\<close>

text \<open>
  A request: its method, the path and the query parameters of its URL, the two headers the
  handler reads, and what \<^verbatim>\<open>request.json()\<close> gives (\<open>Inl\<close> is the message of the error it
  throws on a body that is not JSON).
\<close>

record request =
  "method" :: string
  pathname :: string
  searchParams :: "(string \<times> string) list"
  authorization :: "string option"
  content_type :: "string option"
  json :: "string + payload"

text \<open>
  \<^verbatim>\<open>getUserFromRequest\<close>. The header starts with \<^verbatim>\<open>Bearer \<close> where the token is taken, so
  \<^verbatim>\<open>authHeader.replace('Bearer ', '')\<close> drops these seven characters. \<open>Inl\<close> is the error
  \<^verbatim>\<open>createAnonClient\<close> throws.
\<close>

definition getUserFromRequest :: "request \<Rightarrow> world \<Rightarrow> (err + string option) \<times> world" where
  "getUserFromRequest req w =
     (case authorization req of
        None \<Rightarrow> (Inr None, w)
      | Some authHeader \<Rightarrow>
          if authHeader = [] \<or> \<not> startsWith authHeader ''Bearer '' then (Inr None, w)
          else
            (case createAnonClient w of
               Inl e \<Rightarrow> (Inl e, w)
             | Inr _ \<Rightarrow>
                 (case auth_getUser (drop 7 authHeader) w of (user, w1) \<Rightarrow> (Inr user, w1))))"

definition parseRequestBody :: "request \<Rightarrow> err + payload" where
  "parseRequestBody req =
     (case content_type req of
        None \<Rightarrow>
          Inl (Error_of
                 ''Failed to parse request body: Content-Type must be application/json'')
      | Some contentType \<Rightarrow>
          if contentType = [] \<or> \<not> includes_str contentType ''application/json''
            then Inl (Error_of
                        ''Failed to parse request body: Content-Type must be application/json'')
          else
            (case json req of
               Inl m \<Rightarrow> Inl (Error_of (''Failed to parse request body: '' @ m))
             | Inr data \<Rightarrow> Inr data))"

text \<open>\<^verbatim>\<open>params.get(k) || undefined\<close>\<close>

definition param :: "(string \<times> string) list \<Rightarrow> string \<Rightarrow> string option" where
  "param params k =
     (case map_of params k of None \<Rightarrow> None | Some v \<Rightarrow> if v = [] then None else Some v)"

definition filters_of :: "request \<Rightarrow> ExpenseFilters" where
  "filters_of req =
     \<lparr>category_filter = param (searchParams req) ''category'',
      startDate = param (searchParams req) ''start_date'',
      endDate = param (searchParams req) ''end_date'',
      paymentStatus = param (searchParams req) ''payment_status''\<rparr>"

text \<open>
  \<^verbatim>\<open>url.pathname.replace(/^\/functions\/v1\//, '').split('/')\<close>, then
  \<^verbatim>\<open>pathParts[0]\<close> and \<^verbatim>\<open>pathParts[1] || ''\<close>.
\<close>

definition pathParts :: "request \<Rightarrow> string list" where
  "pathParts req =
     split CHR ''/''
       (if startsWith (pathname req) ''/functions/v1/'' then drop 14 (pathname req)
        else pathname req)"

definition mainRoute :: "request \<Rightarrow> string option" where
  "mainRoute req = (case pathParts req of [] \<Rightarrow> None | p # _ \<Rightarrow> Some p)"

definition subRoute :: "request \<Rightarrow> string" where
  "subRoute req = (case pathParts req of _ # s # _ \<Rightarrow> s | _ \<Rightarrow> [])"

text \<open>\<^verbatim>\<open>subRoute.split('/')[1]\<close>; an index out of range gives \<^verbatim>\<open>undefined\<close>.\<close>

definition id_of :: "string \<Rightarrow> string" where
  "id_of sub = (case split CHR ''/'' sub of _ # i # _ \<Rightarrow> i | _ \<Rightarrow> ''undefined'')"

text \<open>
  The branch of the \<^verbatim>\<open>if\<close> chain inside the \<^verbatim>\<open>try\<close> of the handler that a method and a
  sub-route select; \<open>NoMatch\<close> is falling through to \<^verbatim>\<open>methodNotAllowed()\<close>.
\<close>

datatype action =
    ListExpenses
  | GetCategories
  | GetById string
  | Create
  | Update string
  | Delete string
  | NoMatch

definition select_action :: "string \<Rightarrow> string \<Rightarrow> action" where
  "select_action m sub =
     (if m = ''GET'' then
        (if sub = [] \<or> sub = ''/'' then ListExpenses
         else if sub = ''/categories'' then GetCategories
         else if matches_id_route sub then GetById (id_of sub)
         else NoMatch)
      else if m = ''POST'' \<and> (sub = [] \<or> sub = ''/'') then Create
      else if m = ''PUT'' \<and> matches_id_route sub then Update (id_of sub)
      else if m = ''DELETE'' \<and> matches_id_route sub then Delete (id_of sub)
      else NoMatch)"

text \<open>
  Running the selected branch. An operation's result is returned; an error thrown by
  \<^verbatim>\<open>parseRequestBody\<close> or out of an operation is caught by the handler's \<^verbatim>\<open>catch\<close>.
\<close>

definition run_action ::
  "action \<Rightarrow> request \<Rightarrow> string \<Rightarrow> world \<Rightarrow> (err + response) \<times> world" where
  "run_action a req userId w =
     (case a of
        ListExpenses \<Rightarrow> catch_errorResponse (getExpenses (filters_of req) w)
      | GetCategories \<Rightarrow> catch_errorResponse (getExpenseCategories w)
      | GetById i \<Rightarrow> catch_errorResponse (getExpenseById i w)
      | Create \<Rightarrow>
          (case parseRequestBody req of
             Inl e \<Rightarrow> (errorResponse e 400, w)
           | Inr data \<Rightarrow> catch_errorResponse (createExpense data userId w))
      | Update i \<Rightarrow>
          (case parseRequestBody req of
             Inl e \<Rightarrow> (errorResponse e 400, w)
           | Inr data \<Rightarrow> catch_errorResponse (updateExpense i data w))
      | Delete i \<Rightarrow> catch_errorResponse (deleteExpense i w)
      | NoMatch \<Rightarrow> (methodNotAllowed, w))"

text \<open>
  The handler passed to \<^verbatim>\<open>serve\<close>. \<^verbatim>\<open>handleCors\<close> is imported from a module that is not
  part of the sources, so it is a parameter: it answers a request itself (\<open>Some\<close>) or lets
  it pass. In the result \<open>Inl\<close> is an error thrown out of the handler.
\<close>

definition serve ::
  "(request \<Rightarrow> response option) \<Rightarrow> request \<Rightarrow> world \<Rightarrow> (err + response) \<times> world" where
  "serve handleCors req w =
     (case handleCors req of
        Some corsResponse \<Rightarrow> (Inr corsResponse, w)
      | None \<Rightarrow>
          if mainRoute req \<noteq> Some ''expenses''
            then (new_Response (Error ''Not found'' None) 404, w)
          else if subRoute req = ''summary'' then
            (if method req = ''GET'' then (new_Response Summary 200, w)
             else (new_Response (Error ''Method not allowed'' None) 405, w))
          else
            (case getUserFromRequest req w of
               (Inl e, w1) \<Rightarrow> (Inl e, w1)
             | (Inr None, w1) \<Rightarrow> (unauthorized, w1)
             | (Inr (Some userId), w1) \<Rightarrow>
                 run_action (select_action (method req) (subRoute req)) req userId w1))"

subsection \<open>Notions of the specification\<close>

text \<open>
  A property of a payload is present when it is supplied and not empty; an amount is
  positive when it is supplied and greater than zero; an employee id is well formed when it
  is supplied and has the shape of a UUID.
\<close>

definition present :: "string option \<Rightarrow> bool" where
  "present v = (case v of None \<Rightarrow> False | Some s \<Rightarrow> s \<noteq> [])"

definition positive :: "rat option \<Rightarrow> bool" where
  "positive v = (case v of None \<Rightarrow> False | Some a \<Rightarrow> 0 < a)"

definition well_formed_uuid :: "string option \<Rightarrow> bool" where
  "well_formed_uuid v = (case v of None \<Rightarrow> False | Some s \<Rightarrow> uuid_shape s)"

text \<open>
  The user a request is authenticated as: the user the identity provider resolves the
  token of its \<^verbatim>\<open>Authorization: Bearer\<close> header to, if there is one.
\<close>

definition bearer_user :: "request \<Rightarrow> world \<Rightarrow> string option" where
  "bearer_user req w =
     (case authorization req of
        None \<Rightarrow> None
      | Some h \<Rightarrow>
          if startsWith h ''Bearer '' then
            (case faults w AuthGetUser of
               Some e \<Rightarrow> None
             | None \<Rightarrow> map_of (users w) (drop 7 h))
          else None)"

text \<open>
  The calls made to the store, and what it means that a run from \<open>w\<close> to \<open>w'\<close> has not
  accessed the store: the tables are the same and no call to the store was added.
\<close>

definition store_calls :: "world \<Rightarrow> call list" where
  "store_calls w = filter (\<lambda>c. c \<noteq> AuthGetUser) (calls w)"

definition store_untouched :: "world \<Rightarrow> world \<Rightarrow> bool" where
  "store_untouched w w' =
     (expenses w' = expenses w \<and> employees w' = employees w \<and>
      transactions w' = transactions w \<and> store_calls w' = store_calls w)"

text \<open>
  The calls a run from \<open>w\<close> to \<open>w'\<close> has added to the log, the rows it has added to the
  ledger and to the expense table, the expense a response of a given status carries, and
  the row the expense table holds under an id.
\<close>

definition new_calls :: "world \<Rightarrow> world \<Rightarrow> call list" where
  "new_calls w w' = drop (length (calls w)) (calls w')"

definition new_rows :: "world \<Rightarrow> world \<Rightarrow> TransactionData list" where
  "new_rows w w' = drop (length (transactions w)) (transactions w')"

definition new_expenses :: "world \<Rightarrow> world \<Rightarrow> expense list" where
  "new_expenses w w' = drop (length (expenses w)) (expenses w')"

definition returned_expense :: "nat \<Rightarrow> err + response \<Rightarrow> expense option" where
  "returned_expense st r =
     (case r of
        Inl e \<Rightarrow> None
      | Inr resp \<Rightarrow>
          if resp_status resp = st then
            (case resp_body resp of
               Data (ExpenseWithEmployee e emp) \<Rightarrow> Some e
             | _ \<Rightarrow> None)
          else None)"

definition stored :: "world \<Rightarrow> string \<Rightarrow> expense option" where
  "stored w i =
     (case filter (\<lambda>r. expense_id r = i) (expenses w) of [x] \<Rightarrow> Some x | _ \<Rightarrow> None)"

text \<open>
  The effect of a run on the ledger. \<open>None\<close>: no insert into the transactions table is
  issued and the table is unchanged. \<open>Some row\<close>: exactly one insert is issued; the table
  gains this row, unless the store fails the insert, and then it is unchanged.
\<close>

definition ledger_effect :: "world \<Rightarrow> world \<Rightarrow> TransactionData option \<Rightarrow> bool" where
  "ledger_effect w w' t =
     (case t of
        None \<Rightarrow>
          count_list (new_calls w w') InsertTransaction = 0 \<and>
          transactions w' = transactions w
      | Some row \<Rightarrow>
          count_list (new_calls w w') InsertTransaction = 1 \<and>
          transactions w' =
            (case faults w InsertTransaction of
               None \<Rightarrow> transactions w @ [row]
             | Some e \<Rightarrow> transactions w))"

subsection \<open>Answers of the store\<close>

text \<open>
  Abbreviations for the runs of the operations: what the store answers to the lookup of
  one employee and of one expense, the payload \<^verbatim>\<open>createExpense\<close> inserts, the responses
  of an operation, the world after the insert into the ledger, and the world in which the
  store answers that insert with \<open>f\<close>.
\<close>

definition employee_lookup :: "string option \<Rightarrow> world \<Rightarrow> err + employee" where
  "employee_lookup i w =
     (case faults w SelectEmployeeById of
        Some e \<Rightarrow> Inl e
      | None \<Rightarrow> single (filter (\<lambda>e. Some (emp_id e) = i) (employees w)))"

definition expense_lookup :: "string \<Rightarrow> world \<Rightarrow> err + expense" where
  "expense_lookup i w =
     (case faults w SelectExpenseById of
        Some e \<Rightarrow> Inl e
      | None \<Rightarrow> single (filter (\<lambda>r. expense_id r = i) (expenses w)))"

definition with_default_status :: "payload \<Rightarrow> payload" where
  "with_default_status p =
     (if falsy_str (payment_status p) then p\<lparr>payment_status := Some ''pending''\<rparr> else p)"

definition failure :: "err \<Rightarrow> err + response" where
  "failure e = Inr \<lparr>resp_status = 400, resp_body = Error (err_message e) (Some e)\<rparr>"

definition success :: "nat \<Rightarrow> expense \<Rightarrow> employee \<Rightarrow> err + response" where
  "success st e emp =
     Inr \<lparr>resp_status = st, resp_body = Data (ExpenseWithEmployee e (Some emp))\<rparr>"

definition not_found :: "err + response" where
  "not_found =
     Inr \<lparr>resp_status = 404,
          resp_body = Error ''Expense not found'' (Some (Error_of ''Expense not found''))\<rparr>"

definition lookup_failure :: "err \<Rightarrow> err + response" where
  "lookup_failure e = (if err_code e = Some ''PGRST116'' then not_found else failure e)"

definition ledger_write :: "TransactionData \<Rightarrow> world \<Rightarrow> world" where
  "ledger_write t w =
     (case faults w InsertTransaction of
        Some e \<Rightarrow> logged InsertTransaction w
      | None \<Rightarrow> logged InsertTransaction (w\<lparr>transactions := transactions w @ [t]\<rparr>))"

definition ledger_outcome :: "err option \<Rightarrow> world \<Rightarrow> world" where
  "ledger_outcome f w = w\<lparr>faults := (faults w)(InsertTransaction := f)\<rparr>"

subsection \<open>Example data\<close>

text \<open>
  A deployment with one employee, one pending expense and one signed-in user; the same
  deployment with a ledger table that refuses inserts, and with a store that fails the
  lookups of employees.
\<close>

definition alice :: employee where
  "alice = \<lparr>emp_id = ''11111111-1111-1111-1111-111111111111'', emp_name = ''Alice''\<rparr>"

definition lunch :: expense where
  "lunch =
     \<lparr>date = Some ''2024-01-15'', amount = Some 25, category = Some ''other'',
      description = Some ''Team lunch'', payment_status = Some ''pending'',
      payment_method = None, invoice_number = None, notes = None,
      employee_id = Some ''11111111-1111-1111-1111-111111111111'',
      expense_id = ''e1'', created_at = Some ''2024-01-15T12:00:00.000Z''\<rparr>"

definition shop :: world where
  "shop =
     \<lparr>SUPABASE_URL = Some ''https://project.supabase.co'',
      SUPABASE_SERVICE_ROLE_KEY = Some ''service-role-key'',
      SUPABASE_ANON_KEY = Some ''anon-key'',
      expenses = [lunch], employees = [alice], transactions = [],
      users = [(''token-1'', ''user-1'')],
      next_id = ''e2'', now = ''2024-02-01T09:00:00.000Z'',
      faults = (\<lambda>c. None), calls = []\<rparr>"

definition ledger_down :: world where
  "ledger_down =
     shop\<lparr>faults :=
            (\<lambda>c. if c = InsertTransaction
                  then Some \<lparr>err_message = ''permission denied for table transactions'',
                             err_code = Some ''42501''\<rparr>
                  else None)\<rparr>"

definition lookups_down :: world where
  "lookups_down =
     shop\<lparr>faults :=
            (\<lambda>c. if c = SelectEmployeesIn \<or> c = SelectEmployeeById
                  then Some \<lparr>err_message = ''canceling statement due to statement timeout'',
                             err_code = Some ''57014''\<rparr>
                  else None)\<rparr>"

text \<open>
  Payloads: the scenario of the specification, the same with the payment completed, a full
  payload that marks the stored expense as completed, a payload that supplies only the
  payment status, and the scenario with the id of an employee the store does not know.
\<close>

definition rent :: payload where
  "rent =
     \<lparr>date = Some ''2024-01-01'', amount = Some 100, category = Some ''rent'',
      description = Some ''Office rent'', payment_status = None, payment_method = None,
      invoice_number = None, notes = None,
      employee_id = Some ''11111111-1111-1111-1111-111111111111''\<rparr>"

definition paid :: payload where
  "paid = rent\<lparr>payment_status := Some ''completed''\<rparr>"

definition settle :: payload where
  "settle =
     \<lparr>date = Some ''2024-01-15'', amount = Some 25, category = Some ''other'',
      description = Some ''Team lunch'', payment_status = Some ''completed'',
      payment_method = Some ''card'', invoice_number = None, notes = None,
      employee_id = Some ''11111111-1111-1111-1111-111111111111''\<rparr>"

definition status_only :: payload where
  "status_only =
     \<lparr>date = None, amount = None, category = None, description = None,
      payment_status = Some ''completed'', payment_method = None, invoice_number = None,
      notes = None, employee_id = None\<rparr>"

definition stranger :: payload where
  "stranger = rent\<lparr>employee_id := Some ''22222222-2222-2222-2222-222222222222''\<rparr>"

text \<open>
  Requests: \<^verbatim>\<open>GET /functions/v1/expenses/does-not-exist-id\<close> with a valid bearer token,
  \<^verbatim>\<open>GET /functions/v1/expenses/summary\<close> without a token, and a \<^verbatim>\<open>DELETE\<close> with a token
  the identity provider does not know. The empty set of filters.
\<close>

definition get_missing :: request where
  "get_missing =
     \<lparr>method = ''GET'', pathname = ''/functions/v1/expenses/does-not-exist-id'',
      searchParams = [], authorization = Some ''Bearer token-1'', content_type = None,
      json = Inl ''Unexpected end of JSON input''\<rparr>"

definition get_summary :: request where
  "get_summary =
     \<lparr>method = ''GET'', pathname = ''/functions/v1/expenses/summary'',
      searchParams = [], authorization = None, content_type = None,
      json = Inl ''Unexpected end of JSON input''\<rparr>"

definition delete_forged :: request where
  "delete_forged =
     \<lparr>method = ''DELETE'', pathname = ''/functions/v1/expenses/e1'',
      searchParams = [], authorization = Some ''Bearer forged'', content_type = None,
      json = Inl ''Unexpected end of JSON input''\<rparr>"

definition no_filters :: ExpenseFilters where
  "no_filters =
     \<lparr>category_filter = None, startDate = None, endDate = None, paymentStatus = None\<rparr>"

section \<open>Properties\<close>

subsection \<open>The regular expression of the validator\<close>

lemma of_char_bound: "of_char (c::char) < (256::nat)"
  by (cases c) (simp add: of_char_def)

lemma char_le_iff: "(a::char) \<le> b \<longleftrightarrow> (of_char a :: nat) \<le> of_char b"
  by (simp add: less_eq_char_def)

lemma hex_digit_iff:
  "hex_digit x \<longleftrightarrow>
     (48 \<le> (of_char x :: nat) \<and> of_char x \<le> (57::nat)) \<or>
     (97 \<le> (of_char x :: nat) \<and> of_char x \<le> (102::nat)) \<or>
     (65 \<le> (of_char x :: nat) \<and> of_char x \<le> (70::nat))"
proof -
  have inj: "\<And>c. x = c \<longleftrightarrow> (of_char x :: nat) = of_char c"
    by auto
  show ?thesis
    unfolding hex_digit_def
    apply (simp add: inj)
    apply arith
    done
qed

lemma in_class_hex: "in_class True hex_class x = hex_digit x"
  unfolding hex_digit_iff
  using of_char_bound [of x]
  apply (simp add: in_class_def hex_class_def toLowerCase_char_def toUpperCase_char_def
      char_le_iff)
  apply (auto simp: take_bit_eq_mod)
  done

lemma in_class_hex_fun: "in_class True hex_class = hex_digit"
  by (rule ext) (rule in_class_hex)

lemma rx_match_Exactly:
  "rx_match ic (Exactly n cls # r) s \<longleftrightarrow>
     n \<le> length s \<and> list_all (in_class ic cls) (take n s) \<and> rx_match ic r (drop n s)"
proof (induction n arbitrary: s)
  case 0
  show ?case by simp
next
  case (Suc n)
  show ?case by (cases s) (auto simp: Suc)
qed

lemma rx_match_Lit:
  "rx_match ic (Lit c # r) s \<longleftrightarrow> s \<noteq> [] \<and> hd s = c \<and> rx_match ic r (tl s)"
  by (cases s) auto

text \<open>The regular expression accepts exactly the strings of the documented shape.\<close>

lemma uuidRegex_test_shape: "uuidRegex_test s = uuid_shape s"
proof -
  have d: "\<And>n. tl (drop n s) = drop (Suc n) s" by (simp add: drop_Suc tl_drop)
  have h: "\<And>n. n < length s \<Longrightarrow> hd (drop n s) = s ! n" by (simp add: hd_drop_conv_nth)
  have "uuidRegex_test s \<longleftrightarrow>
      (8 \<le> length s \<and> list_all hex_digit (take 8 s) \<and>
       \<not> length s \<le> 8 \<and> hd (drop 8 s) = CHR ''-'' \<and>
       4 \<le> length s - 9 \<and> list_all hex_digit (take 4 (drop 9 s)) \<and>
       \<not> length s \<le> 13 \<and> hd (drop 13 s) = CHR ''-'' \<and>
       4 \<le> length s - 14 \<and> list_all hex_digit (take 4 (drop 14 s)) \<and>
       \<not> length s \<le> 18 \<and> hd (drop 18 s) = CHR ''-'' \<and>
       4 \<le> length s - 19 \<and> list_all hex_digit (take 4 (drop 19 s)) \<and>
       \<not> length s \<le> 23 \<and> hd (drop 23 s) = CHR ''-'' \<and>
       12 \<le> length s - 24 \<and> list_all hex_digit (take 12 (drop 24 s)) \<and>
       length s \<le> 36)"
    unfolding uuidRegex_test_def uuidRegex_def
    by (simp add: rx_match_Exactly rx_match_Lit in_class_hex_fun d del: rx_match.simps(2))
  also have "\<dots> \<longleftrightarrow> uuid_shape s"
  proof (cases "length s = 36")
    case True
    then show ?thesis by (simp add: uuid_shape_def h)
  next
    case False
    then show ?thesis unfolding uuid_shape_def by linarith
  qed
  finally show ?thesis .
qed

subsection \<open>The validator\<close>

lemma falsy_str_present: "falsy_str v \<longleftrightarrow> \<not> present v"
  by (cases v) (simp_all add: falsy_str_def present_def)

lemma amount_check_positive: "falsy_num v \<or> num_le_zero v \<longleftrightarrow> \<not> positive v"
  by (cases v) (auto simp: falsy_num_def num_le_zero_def positive_def)

lemma uuid_check_well_formed: "uuidRegex_test_opt v \<longleftrightarrow> well_formed_uuid v"
  by (cases v) (simp_all add: uuidRegex_test_opt_def well_formed_uuid_def uuidRegex_test_shape)

lemma rent_uuid_shape: "uuid_shape ''11111111-1111-1111-1111-111111111111''"
  by (simp add: uuid_shape_def hex_digit_def)

text \<open>
  Claim C4. The validator checks, in this order, that the date is present, that the amount
  is present and greater than zero, that the category is present, that the description is
  present, and that the employee id is present and has the shape of a UUID (five groups of
  8, 4, 4, 4 and 12 hexadecimal digits of either case). The first check that fails decides
  the result: it is invalid, with status 400 and the message of that field. A payload that
  passes every check is valid. The validator is a function of the payload alone.
\<close>

theorem validateExpense_first_failing_check:
  fixes e :: "'a payload_scheme"
  shows
  "(\<not> present (date e) \<longrightarrow> validateExpense e = invalid ''Expense date is required'') \<and>
   (present (date e) \<and> \<not> positive (amount e) \<longrightarrow>
      validateExpense e = invalid ''Amount must be a positive number'') \<and>
   (present (date e) \<and> positive (amount e) \<and> \<not> present (category e) \<longrightarrow>
      validateExpense e = invalid ''Category is required'') \<and>
   (present (date e) \<and> positive (amount e) \<and> present (category e) \<and>
    \<not> present (description e) \<longrightarrow>
      validateExpense e = invalid ''Description is required'') \<and>
   (present (date e) \<and> positive (amount e) \<and> present (category e) \<and>
    present (description e) \<and> \<not> present (employee_id e) \<longrightarrow>
      validateExpense e = invalid ''Employee ID is required'') \<and>
   (present (date e) \<and> positive (amount e) \<and> present (category e) \<and>
    present (description e) \<and> present (employee_id e) \<and>
    \<not> well_formed_uuid (employee_id e) \<longrightarrow>
      validateExpense e = invalid ''Invalid employee ID format'') \<and>
   (present (date e) \<and> positive (amount e) \<and> present (category e) \<and>
    present (description e) \<and> present (employee_id e) \<and>
    well_formed_uuid (employee_id e) \<longrightarrow>
      validateExpense e = \<lparr>isValid = True, message = None, status = None\<rparr>) \<and>
   (\<forall>m. \<not> isValid (invalid m) \<and> message (invalid m) = Some m \<and>
        status (invalid m) = Some 400)"
  by (simp add: validateExpense_def falsy_str_present amount_check_positive
      uuid_check_well_formed invalid_def)

theorem validateExpense_first_failing_check_witness:
  "validateExpense rent = \<lparr>isValid = True, message = None, status = None\<rparr> \<and>
   validateExpense (rent\<lparr>amount := Some (- 5), category := None\<rparr>) =
     invalid ''Amount must be a positive number'' \<and>
   validateExpense (rent\<lparr>employee_id := Some ''not-a-uuid''\<rparr>) =
     invalid ''Invalid employee ID format'' \<and>
   status (invalid ''Invalid employee ID format'') = Some 400"
  using validateExpense_first_failing_check [of rent]
    validateExpense_first_failing_check [of "rent\<lparr>amount := Some (- 5), category := None\<rparr>"]
    validateExpense_first_failing_check [of "rent\<lparr>employee_id := Some ''not-a-uuid''\<rparr>"]
  by (simp add: rent_def present_def positive_def well_formed_uuid_def uuid_shape_def
      hex_digit_def)

subsection \<open>Responses\<close>

lemma errorResponse_400:
  "errorResponse e 400 = Inr \<lparr>resp_status = 400, resp_body = Error (err_message e) (Some e)\<rparr>"
  by (simp add: errorResponse_def createJsonResponse_def new_Response_def handleError_def
      null_body_status_def)

lemma successResponse_200:
  "successResponse d 200 = Inr \<lparr>resp_status = 200, resp_body = Data d\<rparr>"
  by (simp add: successResponse_def createJsonResponse_def new_Response_def null_body_status_def)

lemma successResponse_201:
  "successResponse d 201 = Inr \<lparr>resp_status = 201, resp_body = Data d\<rparr>"
  by (simp add: successResponse_def createJsonResponse_def new_Response_def null_body_status_def)

lemma successResponse_204:
  "successResponse d 204 = Inl (Error_of ''Response with null body status cannot have body'')"
  by (simp add: successResponse_def createJsonResponse_def new_Response_def null_body_status_def)

lemma unauthorized_eq:
  "unauthorized =
     Inr \<lparr>resp_status = 401,
          resp_body = Error ''Unauthorized'' (Some (Error_of ''Unauthorized''))\<rparr>"
  by (simp add: unauthorized_def errorResponse_def createJsonResponse_def new_Response_def
      handleError_def null_body_status_def Error_of_def)

lemma methodNotAllowed_eq:
  "methodNotAllowed =
     Inr \<lparr>resp_status = 405,
          resp_body = Error ''Method not allowed'' (Some (Error_of ''Method not allowed''))\<rparr>"
  by (simp add: methodNotAllowed_def errorResponse_def createJsonResponse_def new_Response_def
      handleError_def null_body_status_def Error_of_def)

lemma notFound_Expense:
  "notFound ''Expense'' =
     Inr \<lparr>resp_status = 404,
          resp_body = Error ''Expense not found'' (Some (Error_of ''Expense not found''))\<rparr>"
  by (simp add: notFound_def errorResponse_def createJsonResponse_def new_Response_def
      handleError_def null_body_status_def Error_of_def)

lemma catch_errorResponse_Inr [simp]: "catch_errorResponse (Inr r, w) = (Inr r, w)"
  by (simp add: catch_errorResponse_def)

lemma catch_errorResponse_Inl [simp]:
  "catch_errorResponse (Inl e, w) =
     (Inr \<lparr>resp_status = 400, resp_body = Error (err_message e) (Some e)\<rparr>, w)"
  by (simp add: catch_errorResponse_def errorResponse_400)

subsection \<open>Routing\<close>

text \<open>
  No part of a split path contains the separator, so the sub-route never contains a slash
  and never matches the pattern of an id route, which starts with one.
\<close>

lemma split_nonempty: "split c s \<noteq> []"
  by (induction s) (auto split: list.splits)

lemma split_no_separator: "p \<in> set (split c s) \<Longrightarrow> c \<notin> set p"
proof (induction s arbitrary: p)
  case Nil
  then show ?case by simp
next
  case (Cons x xs)
  show ?case
  proof (cases "x = c")
    case True
    with Cons show ?thesis by auto
  next
    case False
    obtain q qs where q: "split c xs = q # qs"
      using split_nonempty [of c xs] by (cases "split c xs") auto
    with Cons False show ?thesis by auto
  qed
qed

lemma subRoute_no_slash: "CHR ''/'' \<notin> set (subRoute req)"
proof (cases "pathParts req")
  case Nil
  then show ?thesis by (simp add: subRoute_def)
next
  case (Cons a as)
  show ?thesis
  proof (cases as)
    case Nil
    with Cons show ?thesis by (simp add: subRoute_def)
  next
    case (Cons b bs)
    with \<open>pathParts req = a # as\<close> have "b \<in> set (pathParts req)" by simp
    then have "CHR ''/'' \<notin> set b"
      unfolding pathParts_def by (rule split_no_separator)
    with Cons \<open>pathParts req = a # as\<close> show ?thesis by (simp add: subRoute_def)
  qed
qed

lemma matches_id_route_slash: "matches_id_route s \<Longrightarrow> CHR ''/'' \<in> set s"
  by (cases s) (auto simp: matches_id_route_def idRouteRegex_def)

lemma subRoute_never_id_route: "\<not> matches_id_route (subRoute req)"
  using matches_id_route_slash subRoute_no_slash by blast

lemma select_action_subRoute:
  "select_action m (subRoute req) =
     (if m = ''GET'' \<and> subRoute req = [] then ListExpenses
      else if m = ''POST'' \<and> subRoute req = [] then Create
      else NoMatch)"
proof -
  have a: "subRoute req \<noteq> ''/''" using subRoute_no_slash [of req] by auto
  have b: "subRoute req \<noteq> ''/categories''" using subRoute_no_slash [of req] by auto
  show ?thesis
    by (simp add: select_action_def a b subRoute_never_id_route)
qed

text \<open>
  Claim C3. The claim expects an authenticated \<^verbatim>\<open>GET\<close> with an identifier as sub-route to
  reach \<^verbatim>\<open>getExpenseById\<close> and to be answered 404 "Expense not found" when the id is
  unknown. The router compares the sub-route, which is a part of the path split at the
  slashes, with a pattern that starts with a slash: for the authenticated request
  \<^verbatim>\<open>GET /functions/v1/expenses/does-not-exist-id\<close> no branch is selected, the answer is
  405 "Method not allowed", and the store is not called. \<^verbatim>\<open>getExpenseById\<close> itself, called
  with this id, answers 404 "Expense not found".
\<close>

theorem get_by_id_route_not_selected:
  "serve (\<lambda>r. None) get_missing shop =
     (Inr \<lparr>resp_status = 405,
           resp_body = Error ''Method not allowed'' (Some (Error_of ''Method not allowed''))\<rparr>,
      logged AuthGetUser shop) \<and>
   subRoute get_missing = ''does-not-exist-id'' \<and>
   select_action ''GET'' (subRoute get_missing) = NoMatch \<and>
   fst (getExpenseById ''does-not-exist-id'' shop) =
     Inr \<lparr>resp_status = 404,
          resp_body = Error ''Expense not found'' (Some (Error_of ''Expense not found''))\<rparr>"
proof -
  have sub: "subRoute get_missing = ''does-not-exist-id''"
    by (simp add: subRoute_def pathParts_def get_missing_def startsWith_def)
  have main: "mainRoute get_missing = Some ''expenses''"
    by (simp add: mainRoute_def pathParts_def get_missing_def startsWith_def)
  have act: "select_action ''GET'' (subRoute get_missing) = NoMatch"
    using select_action_subRoute [of "''GET''" get_missing] by (simp add: sub)
  have user: "getUserFromRequest get_missing shop = (Inr (Some ''user-1''), logged AuthGetUser shop)"
    by (simp add: getUserFromRequest_def get_missing_def shop_def startsWith_def
        createAnonClient_def falsy_str_def auth_getUser_def)
  have m: "method get_missing = ''GET''" by (simp add: get_missing_def)
  have "serve (\<lambda>r. None) get_missing shop =
     (Inr \<lparr>resp_status = 405,
           resp_body = Error ''Method not allowed'' (Some (Error_of ''Method not allowed''))\<rparr>,
      logged AuthGetUser shop)"
    using act by (simp add: serve_def main sub user m run_action_def methodNotAllowed_eq)
  moreover have "fst (getExpenseById ''does-not-exist-id'' shop) =
     Inr \<lparr>resp_status = 404,
          resp_body = Error ''Expense not found'' (Some (Error_of ''Expense not found''))\<rparr>"
    by (simp add: getExpenseById_def getExpenseById_try_def createServiceClient_def shop_def
        falsy_str_def select_expense_by_id_def lunch_def single_def notFound_Expense)
  ultimately show ?thesis using sub act by simp
qed

subsection \<open>Authentication\<close>

lemma getUserFromRequest_bearer_user:
  "createAnonClient w = Inr () \<Longrightarrow>
   fst (getUserFromRequest req w) = Inr (bearer_user req w)"
  by (auto simp: getUserFromRequest_def bearer_user_def auth_getUser_def startsWith_def
      split: option.splits)

lemma getUserFromRequest_store_untouched:
  "store_untouched w (snd (getUserFromRequest req w))"
  by (auto simp: getUserFromRequest_def auth_getUser_def store_untouched_def store_calls_def
      logged_def split: option.splits sum.splits)

lemma getUserFromRequest_user:
  "getUserFromRequest req w = (Inr (Some u), w1) \<Longrightarrow> bearer_user req w = Some u"
  by (auto simp: getUserFromRequest_def bearer_user_def auth_getUser_def startsWith_def
      split: option.splits sum.splits if_splits)

text \<open>
  Claim C6. A request that the CORS helper lets pass, whose main route is \<^verbatim>\<open>expenses\<close>
  and whose sub-route is not \<^verbatim>\<open>summary\<close>, and whose bearer token is missing or resolves to
  no user, is answered 401 without any access to the store (the anon client being
  configured). \<^verbatim>\<open>GET\<close> on the sub-route \<^verbatim>\<open>summary\<close> is answered 200 with the world
  unchanged, so without a call to the identity provider, whatever the request carries.
  Whatever the route, a request that is not authenticated never accesses the store.
\<close>

theorem unauthenticated_request_401_before_store:
  "(handleCors req = None \<and> mainRoute req = Some ''expenses'' \<and> subRoute req \<noteq> ''summary'' \<and>
    createAnonClient w = Inr () \<and> bearer_user req w = None \<longrightarrow>
      fst (serve handleCors req w) =
        Inr \<lparr>resp_status = 401,
             resp_body = Error ''Unauthorized'' (Some (Error_of ''Unauthorized''))\<rparr> \<and>
      store_untouched w (snd (serve handleCors req w))) \<and>
   (handleCors req = None \<and> mainRoute req = Some ''expenses'' \<and> subRoute req = ''summary'' \<and>
    method req = ''GET'' \<longrightarrow>
      serve handleCors req w = (Inr \<lparr>resp_status = 200, resp_body = Summary\<rparr>, w)) \<and>
   (bearer_user req w = None \<longrightarrow> store_untouched w (snd (serve handleCors req w)))"
proof (intro conjI impI)
  assume a: "handleCors req = None \<and> mainRoute req = Some ''expenses'' \<and>
    subRoute req \<noteq> ''summary'' \<and> createAnonClient w = Inr () \<and> bearer_user req w = None"
  then have u: "fst (getUserFromRequest req w) = Inr None"
    using getUserFromRequest_bearer_user [of w req] by simp
  obtain r w1 where g: "getUserFromRequest req w = (r, w1)"
    by (cases "getUserFromRequest req w")
  with u have r: "r = Inr None" by simp
  from a g r show "fst (serve handleCors req w) =
        Inr \<lparr>resp_status = 401,
             resp_body = Error ''Unauthorized'' (Some (Error_of ''Unauthorized''))\<rparr>"
    by (simp add: serve_def unauthorized_eq)
  from a g r getUserFromRequest_store_untouched [of w req]
  show "store_untouched w (snd (serve handleCors req w))"
    by (simp add: serve_def)
next
  assume "handleCors req = None \<and> mainRoute req = Some ''expenses'' \<and>
    subRoute req = ''summary'' \<and> method req = ''GET''"
  then show "serve handleCors req w = (Inr \<lparr>resp_status = 200, resp_body = Summary\<rparr>, w)"
    by (simp add: serve_def new_Response_def null_body_status_def)
next
  assume b: "bearer_user req w = None"
  obtain r w1 where g: "getUserFromRequest req w = (r, w1)"
    by (cases "getUserFromRequest req w")
  have ne: "\<And>u. r \<noteq> Inr (Some u)"
    using getUserFromRequest_user [of req w _ w1] g b by auto
  have s: "store_untouched w w1"
    using getUserFromRequest_store_untouched [of w req] g by simp
  have z: "store_untouched w w" by (simp add: store_untouched_def)
  show "store_untouched w (snd (serve handleCors req w))"
    using g ne s z
    by (auto simp: serve_def split: option.splits sum.splits)
qed

theorem unauthenticated_request_401_before_store_witness:
  "fst (serve (\<lambda>r. None) delete_forged shop) =
     Inr \<lparr>resp_status = 401,
          resp_body = Error ''Unauthorized'' (Some (Error_of ''Unauthorized''))\<rparr> \<and>
   store_untouched shop (snd (serve (\<lambda>r. None) delete_forged shop)) \<and>
   expenses (snd (serve (\<lambda>r. None) delete_forged shop)) = [lunch] \<and>
   serve (\<lambda>r. None) get_summary shop = (Inr \<lparr>resp_status = 200, resp_body = Summary\<rparr>, shop)"
proof -
  have 1: "mainRoute delete_forged = Some ''expenses''"
    by (simp add: mainRoute_def pathParts_def delete_forged_def startsWith_def)
  have 2: "subRoute delete_forged = ''e1''"
    by (simp add: subRoute_def pathParts_def delete_forged_def startsWith_def)
  have 3: "createAnonClient shop = Inr ()"
    by (simp add: createAnonClient_def shop_def falsy_str_def)
  have 4: "bearer_user delete_forged shop = None"
    by (simp add: bearer_user_def delete_forged_def shop_def startsWith_def)
  have 5: "mainRoute get_summary = Some ''expenses''"
    by (simp add: mainRoute_def pathParts_def get_summary_def startsWith_def)
  have 6: "subRoute get_summary = ''summary''"
    by (simp add: subRoute_def pathParts_def get_summary_def startsWith_def)
  have 7: "method get_summary = ''GET''"
    by (simp add: get_summary_def)
  have 8: "expenses shop = [lunch]" by (simp add: shop_def)
  show ?thesis
    using unauthenticated_request_401_before_store [of "\<lambda>r. None" delete_forged shop]
      unauthenticated_request_401_before_store [of "\<lambda>r. None" get_summary shop]
    by (simp add: 1 2 3 4 5 6 7 8 store_untouched_def)
qed

subsection \<open>Runs of the operations\<close>

lemma logged_simps [simp]:
  "SUPABASE_URL (logged c w) = SUPABASE_URL w"
  "SUPABASE_SERVICE_ROLE_KEY (logged c w) = SUPABASE_SERVICE_ROLE_KEY w"
  "SUPABASE_ANON_KEY (logged c w) = SUPABASE_ANON_KEY w"
  "expenses (logged c w) = expenses w"
  "employees (logged c w) = employees w"
  "transactions (logged c w) = transactions w"
  "users (logged c w) = users w"
  "next_id (logged c w) = next_id w"
  "now (logged c w) = now w"
  "faults (logged c w) = faults w"
  "calls (logged c w) = calls w @ [c]"
  by (simp_all add: logged_def)

lemma createServiceClient_frame [simp]:
  "createServiceClient (logged c w) = createServiceClient w"
  "createServiceClient (w\<lparr>expenses := x\<rparr>) = createServiceClient w"
  "createServiceClient (w\<lparr>transactions := t\<rparr>) = createServiceClient w"
  by (simp_all add: createServiceClient_def)

lemma transactionData_frame [simp]:
  "transactionData e u (logged c w) = transactionData e u w"
  "transactionData e u (w\<lparr>expenses := x\<rparr>) = transactionData e u w"
  "transactionData e u (w\<lparr>transactions := t\<rparr>) = transactionData e u w"
  by (simp_all add: transactionData_def)

lemma employee_lookup_frame [simp]:
  "employee_lookup i (logged c w) = employee_lookup i w"
  "employee_lookup i (w\<lparr>expenses := x\<rparr>) = employee_lookup i w"
  by (simp_all add: employee_lookup_def split: option.splits)

lemma select_employee_by_id_eq:
  "select_employee_by_id i w = (employee_lookup i w, logged SelectEmployeeById w)"
  by (simp add: select_employee_by_id_def employee_lookup_def split: option.splits)

lemma select_expense_by_id_eq:
  "select_expense_by_id i w = (expense_lookup i w, logged SelectExpenseById w)"
  by (simp add: select_expense_by_id_def expense_lookup_def split: option.splits)

lemma createExpenseTransaction_eq:
  "createServiceClient w = Inr () \<Longrightarrow>
   snd (createExpenseTransaction e u w) = ledger_write (transactionData e u w) w"
  by (simp add: createExpenseTransaction_def insert_transaction_def ledger_write_def
      split: option.splits)

lemma new_row_fields [simp]:
  "payment_status (new_row p w) = payment_status p"
  "employee_id (new_row p w) = employee_id p"
  "expense_id (new_row p w) = next_id w"
  by (simp_all add: new_row_def)

lemma validation_response_invalid:
  "\<not> isValid (validateExpense p) \<Longrightarrow>
   validation_response (validateExpense p) =
     failure (Error_of (case message (validateExpense p) of None \<Rightarrow> ''undefined'' | Some m \<Rightarrow> m))"
  by (auto simp: validateExpense_def invalid_def validation_response_def errorResponse_400
      Error_of_def failure_def split: if_splits)

lemma catch_failure [simp]:
  "catch_errorResponse (Inl e, w) = (failure e, w)"
  "catch_errorResponse (failure e, w) = (failure e, w)"
  "catch_errorResponse (success st x emp, w) = (success st x emp, w)"
  by (simp_all add: failure_def success_def)

text \<open>The run of \<^verbatim>\<open>createExpense\<close> on a valid payload.\<close>

lemma createExpense_run:
  assumes "createServiceClient w = Inr ()" and "isValid (validateExpense p)"
  shows "createExpense p u w =
    (let pe = with_default_status p;
         row = new_row pe w;
         w2 = logged SelectEmployeeById
                (logged InsertExpense (w\<lparr>expenses := expenses w @ [row]\<rparr>))
     in case faults w InsertExpense of
          Some e \<Rightarrow> (failure e, logged InsertExpense w)
        | None \<Rightarrow>
            (case employee_lookup (employee_id pe) w of
               Inl e \<Rightarrow> (failure e, w2)
             | Inr emp \<Rightarrow>
                 (success 201 row emp,
                  if payment_status pe = Some ''completed''
                    then ledger_write (transactionData row (Some u) w) w2
                  else w2)))"
proof (cases "faults w InsertExpense")
  case (Some e)
  with assms show ?thesis
    by (simp add: createExpense_def createExpense_try_def insert_expense_def Let_def
        failure_def)
next
  case None
  show ?thesis
  proof (cases "employee_lookup (employee_id (with_default_status p)) w")
    case (Inl e)
    with assms None show ?thesis
      by (simp add: createExpense_def createExpense_try_def insert_expense_def Let_def
          select_employee_by_id_eq with_default_status_def [symmetric] failure_def)
  next
    case (Inr emp)
    with assms None show ?thesis
      by (simp add: createExpense_def createExpense_try_def insert_expense_def Let_def
          select_employee_by_id_eq with_default_status_def [symmetric]
          createExpenseTransaction_eq successResponse_201 success_def)
  qed
qed

lemma createExpense_invalid:
  assumes "createServiceClient w = Inr ()" and "\<not> isValid (validateExpense p)"
  shows "createExpense p u w =
    (failure (Error_of (case message (validateExpense p) of None \<Rightarrow> ''undefined'' | Some m \<Rightarrow> m)), w)"
  using assms
  by (simp add: createExpense_def createExpense_try_def validation_response_invalid
      failure_def)

lemma createExpense_no_client:
  assumes "createServiceClient w = Inl e"
  shows "createExpense p u w = (failure e, w)"
  using assms by (simp add: createExpense_def createExpense_try_def failure_def)

lemma single_Inr: "single xs = Inr x \<longleftrightarrow> xs = [x]"
  by (auto simp: single_def split: list.splits)

lemma expense_lookup_Inr:
  "expense_lookup i w = Inr x \<longleftrightarrow>
     faults w SelectExpenseById = None \<and> filter (\<lambda>r. expense_id r = i) (expenses w) = [x]"
  by (simp add: expense_lookup_def single_Inr split: option.splits)

lemma expense_lookup_stored: "expense_lookup i w = Inr x \<Longrightarrow> stored w i = Some x"
  by (simp add: expense_lookup_Inr stored_def)

lemma updateExpense_run:
  assumes "createServiceClient w = Inr ()" and "isValid (validateExpense p)"
  shows "updateExpense i p w =
    (case expense_lookup i w of
       Inl e \<Rightarrow> (lookup_failure e, logged SelectExpenseById w)
     | Inr x \<Rightarrow>
         (case faults w UpdateExpense of
            Some e \<Rightarrow> (failure e, logged UpdateExpense (logged SelectExpenseById w))
          | None \<Rightarrow>
              let y = apply_updates p x;
                  w3 = logged SelectEmployeeById
                         (logged UpdateExpense
                            ((logged SelectExpenseById w)
                               \<lparr>expenses :=
                                  map (\<lambda>r. if expense_id r = i then apply_updates p r else r)
                                    (expenses w)\<rparr>))
              in case employee_lookup (employee_id y) w of
                   Inl e \<Rightarrow> (failure e, w3)
                 | Inr emp \<Rightarrow>
                     (success 200 y emp,
                      if payment_status p = Some ''completed'' \<and>
                         payment_status x \<noteq> Some ''completed''
                        then ledger_write (transactionData y (employee_id x) w) w3
                      else w3)))"
proof (cases "expense_lookup i w")
  case (Inl e)
  with assms show ?thesis
    by (simp add: updateExpense_def updateExpense_try_def select_expense_by_id_eq
        lookup_failure_def not_found_def notFound_Expense failure_def)
next
  case (Inr x)
  then have f: "filter (\<lambda>r. expense_id r = i) (expenses w) = [x]"
    by (simp add: expense_lookup_Inr)
  show ?thesis
  proof (cases "faults w UpdateExpense")
    case (Some e)
    with assms Inr show ?thesis
      by (simp add: updateExpense_def updateExpense_try_def select_expense_by_id_eq
          update_expense_def failure_def)
  next
    case None
    show ?thesis
    proof (cases "employee_lookup (employee_id (apply_updates p x)) w")
      case (Inl e)
      with assms \<open>expense_lookup i w = Inr x\<close> None f show ?thesis
        by (simp add: updateExpense_def updateExpense_try_def select_expense_by_id_eq
            update_expense_def single_def select_employee_by_id_eq failure_def Let_def)
    next
      case (Inr emp)
      with assms \<open>expense_lookup i w = Inr x\<close> None f show ?thesis
        by (simp add: updateExpense_def updateExpense_try_def select_expense_by_id_eq
            update_expense_def single_def select_employee_by_id_eq successResponse_200
            success_def createExpenseTransaction_eq Let_def)
    qed
  qed
qed

lemma updateExpense_invalid:
  assumes "createServiceClient w = Inr ()" and "\<not> isValid (validateExpense p)"
  shows "updateExpense i p w =
    (failure (Error_of (case message (validateExpense p) of None \<Rightarrow> ''undefined'' | Some m \<Rightarrow> m)), w)"
  using assms
  by (simp add: updateExpense_def updateExpense_try_def validation_response_invalid
      failure_def)

lemma updateExpense_no_client:
  assumes "createServiceClient w = Inl e"
  shows "updateExpense i p w = (failure e, w)"
  using assms by (simp add: updateExpense_def updateExpense_try_def failure_def)

lemma deleteExpense_run:
  assumes "createServiceClient w = Inr ()"
  shows "deleteExpense i w =
    (case expense_lookup i w of
       Inl e \<Rightarrow> (lookup_failure e, logged SelectExpenseById w)
     | Inr x \<Rightarrow>
         if payment_status x = Some ''completed''
           then (failure (Error_of ''Cannot delete an expense with completed payment''),
                 logged SelectExpenseById w)
         else
           (case faults w DeleteExpense of
              Some e \<Rightarrow> (failure e, logged DeleteExpense (logged SelectExpenseById w))
            | None \<Rightarrow>
                (failure (Error_of ''Response with null body status cannot have body''),
                 logged DeleteExpense
                   ((logged SelectExpenseById w)
                      \<lparr>expenses := filter (\<lambda>r. expense_id r \<noteq> i) (expenses w)\<rparr>))))"
  using assms
  by (simp add: deleteExpense_def deleteExpense_try_def select_expense_by_id_eq
      lookup_failure_def not_found_def notFound_Expense failure_def errorResponse_400
      delete_expense_def successResponse_204
      split: sum.splits option.splits)

lemma deleteExpense_no_client:
  assumes "createServiceClient w = Inl e"
  shows "deleteExpense i w = (failure e, w)"
  using assms by (simp add: deleteExpense_def deleteExpense_try_def failure_def)

lemma getExpenseById_run:
  assumes "createServiceClient w = Inr ()"
  shows "getExpenseById i w =
    (case expense_lookup i w of
       Inl e \<Rightarrow> (lookup_failure e, logged SelectExpenseById w)
     | Inr x \<Rightarrow>
         (case employee_lookup (employee_id x) w of
            Inl e \<Rightarrow> (failure e, logged SelectEmployeeById (logged SelectExpenseById w))
          | Inr emp \<Rightarrow>
              (success 200 x emp, logged SelectEmployeeById (logged SelectExpenseById w))))"
  using assms
  by (simp add: getExpenseById_def getExpenseById_try_def select_expense_by_id_eq
      lookup_failure_def not_found_def notFound_Expense failure_def
      select_employee_by_id_eq successResponse_200 success_def
      split: sum.splits)

lemma getExpenseById_no_client:
  assumes "createServiceClient w = Inl e"
  shows "getExpenseById i w = (failure e, w)"
  using assms by (simp add: getExpenseById_def getExpenseById_try_def failure_def)

lemma getExpenses_run:
  assumes "createServiceClient w = Inr ()"
  shows "getExpenses f w =
    (case faults w SelectExpenses of
       Some e \<Rightarrow> (failure e, logged SelectExpenses w)
     | None \<Rightarrow>
         let rows = query_expenses f (expenses w) in
         if rows = [] then
           (Inr \<lparr>resp_status = 200, resp_body = Data (Expenses [])\<rparr>, logged SelectExpenses w)
         else if employeeIds_of rows = [] then
           (Inr \<lparr>resp_status = 200, resp_body = Data (Expenses rows)\<rparr>,
            logged SelectExpenses w)
         else
           (case faults w SelectEmployeesIn of
              Some e \<Rightarrow>
                (Inr \<lparr>resp_status = 200, resp_body = Data (Expenses rows)\<rparr>,
                 logged SelectEmployeesIn (logged SelectExpenses w))
            | None \<Rightarrow>
                (Inr \<lparr>resp_status = 200,
                      resp_body =
                        Data (ExpensesWithEmployees
                                (map (\<lambda>e. (e, employeeMap_get
                                                 (filter (\<lambda>e. emp_id e \<in> set (employeeIds_of rows))
                                                    (employees w))
                                                 (employee_id e)))
                                   rows))\<rparr>,
                 logged SelectEmployeesIn (logged SelectExpenses w))))"
  using assms
  by (simp add: getExpenses_def getExpenses_try_def select_expenses_def
      select_employees_in_def failure_def successResponse_200 Let_def
      split: option.splits)

lemma getExpenses_no_client:
  assumes "createServiceClient w = Inl e"
  shows "getExpenses f w = (failure e, w)"
  using assms by (simp add: getExpenses_def getExpenses_try_def failure_def)

subsection \<open>The ledger\<close>

lemma returned_expense_simps [simp]:
  "returned_expense st (failure e) = None"
  "returned_expense st not_found = None"
  "returned_expense st (lookup_failure e) = None"
  "returned_expense st (success st' x emp) = (if st' = st then Some x else None)"
  by (simp_all add: returned_expense_def failure_def not_found_def lookup_failure_def
      success_def)

lemma ledger_effect_None:
  "transactions w' = transactions w \<Longrightarrow> calls w' = calls w @ cs \<Longrightarrow>
   InsertTransaction \<notin> set cs \<Longrightarrow> ledger_effect w w' None"
  by (simp add: ledger_effect_def new_calls_def)

lemma ledger_effect_Some:
  "transactions w2 = transactions w \<Longrightarrow> faults w2 = faults w \<Longrightarrow>
   calls w2 = calls w @ cs \<Longrightarrow> InsertTransaction \<notin> set cs \<Longrightarrow>
   ledger_effect w (ledger_write t w2) (Some t)"
  by (simp add: ledger_effect_def new_calls_def ledger_write_def split: option.splits)

lemma ledger_effect_refl: "ledger_effect w w None"
  by (simp add: ledger_effect_def new_calls_def)

lemma createExpense_ledger:
  "ledger_effect w (snd (createExpense p u w))
     (case returned_expense 201 (fst (createExpense p u w)) of
        None \<Rightarrow> None
      | Some e \<Rightarrow>
          if payment_status e = Some ''completed'' then Some (transactionData e (Some u) w)
          else None)"
proof (cases "createServiceClient w")
  case (Inl e)
  then show ?thesis by (simp add: createExpense_no_client ledger_effect_refl)
next
  case (Inr x)
  then have c: "createServiceClient w = Inr ()" by simp
  show ?thesis
  proof (cases "isValid (validateExpense p)")
    case False
    with c show ?thesis by (simp add: createExpense_invalid ledger_effect_refl)
  next
    case True
    show ?thesis
    proof (cases "faults w InsertExpense")
      case (Some e)
      then show ?thesis
        by (simp add: createExpense_run [OF c True] Let_def
            ledger_effect_None [where cs = "[InsertExpense]"])
    next
      case None
      show ?thesis
      proof (cases "employee_lookup (employee_id (with_default_status p)) w")
        case (Inl e)
        with None show ?thesis
          by (simp add: createExpense_run [OF c True] Let_def
              ledger_effect_None [where cs = "[InsertExpense, SelectEmployeeById]"])
      next
        case (Inr emp)
        with None show ?thesis
          by (simp add: createExpense_run [OF c True] Let_def
              ledger_effect_None [where cs = "[InsertExpense, SelectEmployeeById]"]
              ledger_effect_Some [where cs = "[InsertExpense, SelectEmployeeById]"])
      qed
    qed
  qed
qed

lemma updateExpense_ledger:
  "ledger_effect w (snd (updateExpense i p w))
     (case returned_expense 200 (fst (updateExpense i p w)) of
        None \<Rightarrow> None
      | Some e \<Rightarrow>
          (case stored w i of
             None \<Rightarrow> None
           | Some x \<Rightarrow>
               if payment_status p = Some ''completed'' \<and>
                  payment_status x \<noteq> Some ''completed''
                 then Some (transactionData e (employee_id x) w)
               else None))"
proof (cases "createServiceClient w")
  case (Inl e)
  then show ?thesis by (simp add: updateExpense_no_client ledger_effect_refl)
next
  case (Inr u)
  then have c: "createServiceClient w = Inr ()" by simp
  show ?thesis
  proof (cases "isValid (validateExpense p)")
    case False
    with c show ?thesis by (simp add: updateExpense_invalid ledger_effect_refl)
  next
    case True
    show ?thesis
    proof (cases "expense_lookup i w")
      case (Inl e)
      then show ?thesis
        by (simp add: updateExpense_run [OF c True]
            ledger_effect_None [where cs = "[SelectExpenseById]"])
    next
      case (Inr x)
      note x = this expense_lookup_stored [OF this]
      show ?thesis
      proof (cases "faults w UpdateExpense")
        case (Some e)
        with x show ?thesis
          by (simp add: updateExpense_run [OF c True]
              ledger_effect_None [where cs = "[SelectExpenseById, UpdateExpense]"])
      next
        case None
        show ?thesis
        proof (cases "employee_lookup (employee_id (apply_updates p x)) w")
          case (Inl e)
          with x None show ?thesis
            by (simp add: updateExpense_run [OF c True] Let_def
                ledger_effect_None
                  [where cs = "[SelectExpenseById, UpdateExpense, SelectEmployeeById]"])
        next
          case (Inr emp)
          with x None show ?thesis
            by (simp add: updateExpense_run [OF c True] Let_def
                ledger_effect_None
                  [where cs = "[SelectExpenseById, UpdateExpense, SelectEmployeeById]"]
                ledger_effect_Some
                  [where cs = "[SelectExpenseById, UpdateExpense, SelectEmployeeById]"])
        qed
      qed
    qed
  qed
qed

lemma deleteExpense_ledger: "ledger_effect w (snd (deleteExpense i w)) None"
proof (cases "createServiceClient w")
  case (Inl e)
  then show ?thesis by (simp add: deleteExpense_no_client ledger_effect_refl)
next
  case (Inr u)
  then have c: "createServiceClient w = Inr ()" by simp
  show ?thesis
    by (simp add: deleteExpense_run [OF c]
        ledger_effect_None [where cs = "[SelectExpenseById]"]
        ledger_effect_None [where cs = "[SelectExpenseById, DeleteExpense]"]
        split: sum.splits option.splits)
qed

lemma getExpenseById_ledger: "ledger_effect w (snd (getExpenseById i w)) None"
proof (cases "createServiceClient w")
  case (Inl e)
  then show ?thesis by (simp add: getExpenseById_no_client ledger_effect_refl)
next
  case (Inr u)
  then have c: "createServiceClient w = Inr ()" by simp
  show ?thesis
    by (simp add: getExpenseById_run [OF c]
        ledger_effect_None [where cs = "[SelectExpenseById]"]
        ledger_effect_None [where cs = "[SelectExpenseById, SelectEmployeeById]"]
        split: sum.splits option.splits)
qed

lemma getExpenses_ledger: "ledger_effect w (snd (getExpenses f w)) None"
proof (cases "createServiceClient w")
  case (Inl e)
  then show ?thesis by (simp add: getExpenses_no_client ledger_effect_refl)
next
  case (Inr u)
  then have c: "createServiceClient w = Inr ()" by simp
  show ?thesis
    by (simp add: getExpenses_run [OF c] Let_def
        ledger_effect_None [where cs = "[SelectExpenses]"]
        ledger_effect_None [where cs = "[SelectExpenses, SelectEmployeesIn]"]
        split: sum.splits option.splits)
qed

lemma getExpenseCategories_ledger: "ledger_effect w (snd (getExpenseCategories w)) None"
  by (simp add: getExpenseCategories_def successResponse_200 ledger_effect_refl)

lemma rent_valid: "isValid (validateExpense (rent\<lparr>payment_status := s\<rparr>))"
  by (simp add: validateExpense_def rent_def falsy_str_def falsy_num_def num_le_zero_def
      uuidRegex_test_opt_def uuidRegex_test_shape uuid_shape_def hex_digit_def)

lemma shop_client [simp]: "createServiceClient (shop\<lparr>faults := f\<rparr>) = Inr ()"
  by (simp add: createServiceClient_def shop_def falsy_str_def)

lemma shop_alice [simp]:
  "f SelectEmployeeById = None \<Longrightarrow>
   employee_lookup (Some ''11111111-1111-1111-1111-111111111111'') (shop\<lparr>faults := f\<rparr>) =
     Inr alice"
  by (simp add: employee_lookup_def shop_def alice_def single_def)

text \<open>
  Claim C1, as amended. An insert into the transactions table is issued exactly when
  \<^verbatim>\<open>createExpense\<close> answers 201 with an expense whose payment status is completed, or
  \<^verbatim>\<open>updateExpense\<close> answers 200 for a payload whose payment status is completed while the
  row stored before the update had another status. In each of these cases exactly one insert
  is issued, for a row with entity type \<^verbatim>\<open>expense\<close> and the id of the expense as entity
  id; the row is added to the table unless the store fails the insert, and then the table is
  unchanged. In every other case (an update from completed to completed among them), and
  in the other operations, no insert is issued and the table is unchanged.
\<close>

theorem ledger_written_on_completion:
  "ledger_effect w (snd (createExpense p u w))
     (case returned_expense 201 (fst (createExpense p u w)) of
        None \<Rightarrow> None
      | Some e \<Rightarrow>
          if payment_status e = Some ''completed'' then Some (transactionData e (Some u) w)
          else None) \<and>
   ledger_effect w (snd (updateExpense i p' w))
     (case returned_expense 200 (fst (updateExpense i p' w)) of
        None \<Rightarrow> None
      | Some e \<Rightarrow>
          (case stored w i of
             None \<Rightarrow> None
           | Some x \<Rightarrow>
               if payment_status p' = Some ''completed'' \<and>
                  payment_status x \<noteq> Some ''completed''
                 then Some (transactionData e (employee_id x) w)
               else None)) \<and>
   ledger_effect w (snd (deleteExpense i w)) None \<and>
   ledger_effect w (snd (getExpenseById i w)) None \<and>
   ledger_effect w (snd (getExpenses f w)) None \<and>
   ledger_effect w (snd (getExpenseCategories w)) None \<and>
   entity_type (transactionData e uid w) = ''expense'' \<and>
   entity_id (transactionData e uid w) = expense_id e"
  using createExpense_ledger [of w p u] updateExpense_ledger [of w i p']
    deleteExpense_ledger [of w i] getExpenseById_ledger [of w i] getExpenses_ledger [of w f]
    getExpenseCategories_ledger [of w]
  by (simp add: transactionData_def)

theorem ledger_written_on_completion_witness:
  "transactions (snd (createExpense paid ''user-1'' shop)) =
     [transactionData (new_row paid shop) (Some ''user-1'') shop] \<and>
   entity_type (transactionData (new_row paid shop) (Some ''user-1'') shop) = ''expense'' \<and>
   entity_id (transactionData (new_row paid shop) (Some ''user-1'') shop) = ''e2''"
proof -
  have v: "isValid (validateExpense paid)" unfolding paid_def by (rule rent_valid)
  have c: "createServiceClient shop = Inr ()" using shop_client [of "faults shop"] by simp
  have e: "employee_lookup (employee_id (with_default_status paid)) shop = Inr alice"
    using shop_alice [of "faults shop"]
    by (simp add: with_default_status_def paid_def rent_def falsy_str_def shop_def)
  have w: "with_default_status paid = paid"
    by (simp add: with_default_status_def paid_def falsy_str_def)
  have f: "faults shop InsertExpense = None" "faults shop InsertTransaction = None"
    "transactions shop = []" "next_id shop = ''e2''"
    by (simp_all add: shop_def)
  have r: "fst (createExpense paid ''user-1'' shop) = success 201 (new_row paid shop) alice"
    using e f by (simp add: createExpense_run [OF c v] Let_def w)
  have s: "payment_status paid = Some ''completed''" by (simp add: paid_def)
  show ?thesis
    using ledger_written_on_completion
      [where w = shop and p = paid and u = "''user-1''" and e = "new_row paid shop"
         and uid = "Some ''user-1''"]
    by (simp add: r s f ledger_effect_def)
qed

text \<open>
  The claim as stated fails where the store refuses the insert into the ledger:
  \<^verbatim>\<open>createExpense\<close> answers 201 with an expense whose payment is completed, and no
  transaction is written.
\<close>

theorem ledger_insert_failure_counterexample:
  "fst (createExpense paid ''user-1'' ledger_down) =
     success 201 (new_row paid ledger_down) alice \<and>
   payment_status (new_row paid ledger_down) = Some ''completed'' \<and>
   transactions (snd (createExpense paid ''user-1'' ledger_down)) = []"
proof -
  have v: "isValid (validateExpense paid)" unfolding paid_def by (rule rent_valid)
  have c: "createServiceClient ledger_down = Inr ()" by (simp add: ledger_down_def)
  have e: "employee_lookup (employee_id (with_default_status paid)) ledger_down = Inr alice"
    by (simp add: ledger_down_def with_default_status_def paid_def rent_def falsy_str_def)
  have s: "payment_status (with_default_status paid) = Some ''completed''"
    by (simp add: with_default_status_def paid_def falsy_str_def)
  have w: "with_default_status paid = paid"
    by (simp add: with_default_status_def paid_def falsy_str_def)
  have f: "faults ledger_down InsertExpense = None"
    "faults ledger_down InsertTransaction \<noteq> None"
    by (simp_all add: ledger_down_def)
  have t: "transactions ledger_down = []" by (simp add: ledger_down_def shop_def)
  show ?thesis
    using e s f t
    by (simp add: createExpense_run [OF c v] Let_def w ledger_write_def split: option.splits)
qed

lemma new_rows_ledger_None: "ledger_effect w w' None \<Longrightarrow> new_rows w w' = []"
  by (simp add: ledger_effect_def new_rows_def)

lemma new_rows_ledger_Some:
  "ledger_effect w w' (Some t) \<Longrightarrow> new_rows w w' = [] \<or> new_rows w w' = [t]"
  by (auto simp: ledger_effect_def new_rows_def split: option.splits)

text \<open>
  Claim C10. Every transaction that \<^verbatim>\<open>createExpense\<close> adds to the ledger carries the user
  id of the caller as employee id, whatever the employee id of the expense is; every
  transaction that \<^verbatim>\<open>updateExpense\<close> adds carries the employee id of the row stored before
  the update.
\<close>

theorem transaction_employee_id_by_path:
  "(\<forall>t \<in> set (new_rows w (snd (createExpense p u w))). tx_employee_id t = Some u) \<and>
   (\<forall>t \<in> set (new_rows w (snd (updateExpense i p' w))).
      \<exists>x. stored w i = Some x \<and> tx_employee_id t = employee_id x)"
proof (intro conjI ballI)
  fix t
  assume t: "t \<in> set (new_rows w (snd (createExpense p u w)))"
  show "tx_employee_id t = Some u"
  proof (cases "returned_expense 201 (fst (createExpense p u w))")
    case None
    with createExpense_ledger [of w p u] t show ?thesis
      by (simp add: new_rows_ledger_None)
  next
    case (Some e)
    show ?thesis
    proof (cases "payment_status e = Some ''completed''")
      case True
      with Some createExpense_ledger [of w p u]
      have "ledger_effect w (snd (createExpense p u w)) (Some (transactionData e (Some u) w))"
        by simp
      from new_rows_ledger_Some [OF this] t show ?thesis
        by (auto simp: transactionData_def)
    next
      case False
      with Some createExpense_ledger [of w p u] t show ?thesis
        by (simp add: new_rows_ledger_None)
    qed
  qed
next
  fix t
  assume t: "t \<in> set (new_rows w (snd (updateExpense i p' w)))"
  let ?w' = "snd (updateExpense i p' w)"
  show "\<exists>x. stored w i = Some x \<and> tx_employee_id t = employee_id x"
  proof (cases "returned_expense 200 (fst (updateExpense i p' w))")
    case None
    with updateExpense_ledger [of w i p'] t show ?thesis
      by (simp add: new_rows_ledger_None)
  next
    case (Some e)
    show ?thesis
    proof (cases "stored w i")
      case None
      with Some updateExpense_ledger [of w i p'] t show ?thesis
        by (simp add: new_rows_ledger_None)
    next
      case x: (Some x)
      show ?thesis
      proof (cases "payment_status p' = Some ''completed'' \<and>
                    payment_status x \<noteq> Some ''completed''")
        case True
        with Some x updateExpense_ledger [of w i p']
        have "ledger_effect w ?w' (Some (transactionData e (employee_id x) w))"
          by simp
        from new_rows_ledger_Some [OF this] t x show ?thesis
          by (auto simp: transactionData_def)
      next
        case False
        with Some x updateExpense_ledger [of w i p']
        have "ledger_effect w ?w' None" by auto
        with t show ?thesis by (simp add: new_rows_ledger_None)
      qed
    qed
  qed
qed

lemma settle_valid: "isValid (validateExpense settle)"
  by (simp add: validateExpense_def settle_def falsy_str_def falsy_num_def num_le_zero_def
      uuidRegex_test_opt_def uuidRegex_test_shape uuid_shape_def hex_digit_def)

lemma shop_lunch [simp]:
  "f SelectExpenseById = None \<Longrightarrow> expense_lookup ''e1'' (shop\<lparr>faults := f\<rparr>) = Inr lunch"
  by (simp add: expense_lookup_def shop_def lunch_def single_def)

lemma shop_self: "shop\<lparr>faults := \<lambda>c. None\<rparr> = shop"
  by (simp add: shop_def)

theorem transaction_employee_id_by_path_witness:
  "new_rows shop (snd (createExpense paid ''user-1'' shop)) =
     [transactionData (new_row paid shop) (Some ''user-1'') shop] \<and>
   tx_employee_id (transactionData (new_row paid shop) (Some ''user-1'') shop) =
     Some ''user-1'' \<and>
   employee_id (new_row paid shop) = Some ''11111111-1111-1111-1111-111111111111'' \<and>
   tx_employee_id (transactionData (new_row paid shop) (Some ''user-1'') shop) \<noteq>
     employee_id (new_row paid shop) \<and>
   new_rows shop (snd (updateExpense ''e1'' settle shop)) =
     [transactionData (apply_updates settle lunch) (employee_id lunch) shop] \<and>
   tx_employee_id (transactionData (apply_updates settle lunch) (employee_id lunch) shop) =
     employee_id lunch"
proof -
  have v: "isValid (validateExpense paid)" unfolding paid_def by (rule rent_valid)
  have c: "createServiceClient shop = Inr ()" using shop_client [of "\<lambda>c. None"]
    by (simp add: shop_self)
  have e: "employee_lookup (Some ''11111111-1111-1111-1111-111111111111'') shop = Inr alice"
    using shop_alice [of "\<lambda>c. None"] by (simp add: shop_self)
  have l: "expense_lookup ''e1'' shop = Inr lunch"
    using shop_lunch [of "\<lambda>c. None"] by (simp add: shop_self)
  have w: "with_default_status paid = paid"
    by (simp add: with_default_status_def paid_def falsy_str_def)
  have f: "faults shop = (\<lambda>c. None)" "transactions shop = []"
    by (simp_all add: shop_def)
  have ps: "payment_status paid = Some ''completed''" "employee_id paid = Some ''11111111-1111-1111-1111-111111111111''"
    by (simp_all add: paid_def rent_def)
  have 1: "new_rows shop (snd (createExpense paid ''user-1'' shop)) =
     [transactionData (new_row paid shop) (Some ''user-1'') shop]"
    using e f ps
    by (simp add: createExpense_run [OF c v] Let_def w ledger_write_def new_rows_def)
  have ls: "payment_status lunch = Some ''pending''"
    "employee_id (apply_updates settle lunch) = Some ''11111111-1111-1111-1111-111111111111''"
    "payment_status settle = Some ''completed''"
    by (simp_all add: lunch_def apply_updates_def settle_def supplied_def)
  have 2: "new_rows shop (snd (updateExpense ''e1'' settle shop)) =
     [transactionData (apply_updates settle lunch) (employee_id lunch) shop]"
    using e f l ls
    by (simp add: updateExpense_run [OF c settle_valid] Let_def ledger_write_def new_rows_def)
  show ?thesis
    using transaction_employee_id_by_path [of shop paid "''user-1''" "''e1''" settle]
    by (simp add: 1 2 ps expense_lookup_stored [OF l])
qed

subsection \<open>Failures of the ledger and of the employee lookup\<close>

lemma expense_id_apply_updates [simp]: "expense_id (apply_updates p r) = expense_id r"
  by (simp add: apply_updates_def)

lemma filter_updated:
  "filter (\<lambda>r. expense_id r = i)
     (map (\<lambda>r. if expense_id r = i then apply_updates p r else r) xs) =
   map (apply_updates p) (filter (\<lambda>r. expense_id r = i) xs)"
  by (induction xs) simp_all

lemma stored_updated:
  "stored w i = Some x \<Longrightarrow>
   expenses w' = map (\<lambda>r. if expense_id r = i then apply_updates p r else r) (expenses w) \<Longrightarrow>
   stored w' i = Some (apply_updates p x)"
  by (simp add: stored_def filter_updated split: list.splits)

lemma ledger_write_frame [simp]:
  "expenses (ledger_write t w) = expenses w"
  "employees (ledger_write t w) = employees w"
  by (simp_all add: ledger_write_def split: option.splits)

lemma ledger_write_failed:
  "faults w InsertTransaction = Some e \<Longrightarrow> ledger_write t w = logged InsertTransaction w"
  by (simp add: ledger_write_def)

lemma ledger_outcome_frame [simp]:
  "createServiceClient (ledger_outcome f w) = createServiceClient w"
  "employee_lookup i (ledger_outcome f w) = employee_lookup i w"
  "expense_lookup j (ledger_outcome f w) = expense_lookup j w"
  "new_row p (ledger_outcome f w) = new_row p w"
  "expenses (ledger_outcome f w) = expenses w"
  "faults (ledger_outcome f w) InsertExpense = faults w InsertExpense"
  "faults (ledger_outcome f w) UpdateExpense = faults w UpdateExpense"
  by (simp_all add: ledger_outcome_def createServiceClient_def employee_lookup_def
      expense_lookup_def new_row_def split: option.splits)

lemma createExpense_ledger_failure:
  assumes f: "faults w InsertTransaction = Some err"
    and a: "InsertTransaction \<in> set (new_calls w (snd (createExpense p u w)))"
  shows "\<exists>e emp. fst (createExpense p u w) = success 201 e emp \<and>
           expenses (snd (createExpense p u w)) = expenses w @ [e] \<and>
           transactions (snd (createExpense p u w)) = transactions w"
proof (cases "createServiceClient w")
  case (Inl e)
  with a show ?thesis by (simp add: createExpense_no_client new_calls_def)
next
  case (Inr x)
  then have c: "createServiceClient w = Inr ()" by simp
  show ?thesis
  proof (cases "isValid (validateExpense p)")
    case False
    with c a show ?thesis by (simp add: createExpense_invalid new_calls_def)
  next
    case True
    show ?thesis
    proof (cases "faults w InsertExpense")
      case (Some e)
      with a show ?thesis
        by (simp add: createExpense_run [OF c True] Let_def new_calls_def)
    next
      case None
      show ?thesis
      proof (cases "employee_lookup (employee_id (with_default_status p)) w")
        case (Inl e)
        with None a show ?thesis
          by (simp add: createExpense_run [OF c True] Let_def new_calls_def)
      next
        case (Inr emp)
        with None a f show ?thesis
          by (auto simp: createExpense_run [OF c True] Let_def new_calls_def
              ledger_write_failed split: if_splits)
      qed
    qed
  qed
qed

lemma updateExpense_ledger_failure:
  assumes f: "faults w InsertTransaction = Some err"
    and a: "InsertTransaction \<in> set (new_calls w (snd (updateExpense i p w)))"
  shows "\<exists>e emp. fst (updateExpense i p w) = success 200 e emp \<and>
           stored (snd (updateExpense i p w)) i = Some e \<and>
           transactions (snd (updateExpense i p w)) = transactions w"
proof (cases "createServiceClient w")
  case (Inl e)
  with a show ?thesis by (simp add: updateExpense_no_client new_calls_def)
next
  case (Inr x)
  then have c: "createServiceClient w = Inr ()" by simp
  show ?thesis
  proof (cases "isValid (validateExpense p)")
    case False
    with c a show ?thesis by (simp add: updateExpense_invalid new_calls_def)
  next
    case True
    show ?thesis
    proof (cases "expense_lookup i w")
      case (Inl e)
      with a show ?thesis
        by (simp add: updateExpense_run [OF c True] new_calls_def)
    next
      case (Inr x)
      note x = this
      note st = expense_lookup_stored [OF this]
      show ?thesis
      proof (cases "faults w UpdateExpense")
        case (Some e)
        with x a show ?thesis
          by (simp add: updateExpense_run [OF c True] new_calls_def)
      next
        case None
        show ?thesis
        proof (cases "employee_lookup (employee_id (apply_updates p x)) w")
          case (Inl e)
          with x None a show ?thesis
            by (simp add: updateExpense_run [OF c True] Let_def new_calls_def)
        next
          case (Inr emp)
          with x None a f show ?thesis
            by (auto simp: updateExpense_run [OF c True] Let_def new_calls_def
                ledger_write_failed intro!: stored_updated [OF st] split: if_splits)
        qed
      qed
    qed
  qed
qed

lemma createExpense_ledger_outcome:
  "fst (createExpense p u (ledger_outcome f w)) = fst (createExpense p u w) \<and>
   expenses (snd (createExpense p u (ledger_outcome f w))) =
     expenses (snd (createExpense p u w))"
proof (cases "createServiceClient w")
  case (Inl e)
  then show ?thesis by (simp add: createExpense_no_client)
next
  case (Inr x)
  then have c: "createServiceClient w = Inr ()" by simp
  then have c': "createServiceClient (ledger_outcome f w) = Inr ()" by simp
  show ?thesis
  proof (cases "isValid (validateExpense p)")
    case False
    with c c' show ?thesis by (simp add: createExpense_invalid)
  next
    case True
    show ?thesis
      by (simp add: createExpense_run [OF c True] createExpense_run [OF c' True] Let_def
          split: option.splits sum.splits)
  qed
qed

lemma updateExpense_ledger_outcome:
  "fst (updateExpense i p (ledger_outcome f w)) = fst (updateExpense i p w) \<and>
   expenses (snd (updateExpense i p (ledger_outcome f w))) =
     expenses (snd (updateExpense i p w))"
proof (cases "createServiceClient w")
  case (Inl e)
  then show ?thesis by (simp add: updateExpense_no_client)
next
  case (Inr x)
  then have c: "createServiceClient w = Inr ()" by simp
  then have c': "createServiceClient (ledger_outcome f w) = Inr ()" by simp
  show ?thesis
  proof (cases "isValid (validateExpense p)")
    case False
    with c c' show ?thesis by (simp add: updateExpense_invalid)
  next
    case True
    show ?thesis
      by (simp add: updateExpense_run [OF c True] updateExpense_run [OF c' True] Let_def
          split: option.splits sum.splits)
  qed
qed

text \<open>
  Claim C7. Where the insert into the ledger is issued and the store fails it,
  \<^verbatim>\<open>createExpense\<close> still answers 201 with the new expense, which stays in the expense
  table, and \<^verbatim>\<open>updateExpense\<close> still answers 200 with the updated expense, which stays
  stored; the ledger is unchanged and nothing is undone. More generally the response and
  the expense table of a create or an update do not depend on what the store answers to the
  insert into the ledger.
\<close>

theorem ledger_failure_not_surfaced:
  "(faults w InsertTransaction = Some err \<and>
    InsertTransaction \<in> set (new_calls w (snd (createExpense p u w))) \<longrightarrow>
      (\<exists>e emp. fst (createExpense p u w) = success 201 e emp \<and>
         expenses (snd (createExpense p u w)) = expenses w @ [e] \<and>
         transactions (snd (createExpense p u w)) = transactions w)) \<and>
   (faults w InsertTransaction = Some err \<and>
    InsertTransaction \<in> set (new_calls w (snd (updateExpense i p' w))) \<longrightarrow>
      (\<exists>e emp. fst (updateExpense i p' w) = success 200 e emp \<and>
         stored (snd (updateExpense i p' w)) i = Some e \<and>
         transactions (snd (updateExpense i p' w)) = transactions w)) \<and>
   fst (createExpense p u (ledger_outcome f w)) = fst (createExpense p u w) \<and>
   expenses (snd (createExpense p u (ledger_outcome f w))) =
     expenses (snd (createExpense p u w)) \<and>
   fst (updateExpense i p' (ledger_outcome f w)) = fst (updateExpense i p' w) \<and>
   expenses (snd (updateExpense i p' (ledger_outcome f w))) =
     expenses (snd (updateExpense i p' w))"
  using createExpense_ledger_failure [of w err p u]
    updateExpense_ledger_failure [of w err i p']
    createExpense_ledger_outcome [of p u f w] updateExpense_ledger_outcome [of i p' f w]
  by blast

theorem ledger_failure_not_surfaced_witness:
  "faults ledger_down InsertTransaction =
     Some \<lparr>err_message = ''permission denied for table transactions'',
           err_code = Some ''42501''\<rparr> \<and>
   InsertTransaction \<in> set (new_calls ledger_down (snd (createExpense paid ''user-1'' ledger_down))) \<and>
   (\<exists>e emp. fst (createExpense paid ''user-1'' ledger_down) = success 201 e emp \<and>
      expenses (snd (createExpense paid ''user-1'' ledger_down)) = expenses ledger_down @ [e] \<and>
      transactions (snd (createExpense paid ''user-1'' ledger_down)) = transactions ledger_down) \<and>
   InsertTransaction \<in> set (new_calls ledger_down (snd (updateExpense ''e1'' settle ledger_down))) \<and>
   (\<exists>e emp. fst (updateExpense ''e1'' settle ledger_down) = success 200 e emp \<and>
      stored (snd (updateExpense ''e1'' settle ledger_down)) ''e1'' = Some e \<and>
      transactions (snd (updateExpense ''e1'' settle ledger_down)) = transactions ledger_down)"
proof -
  have v: "isValid (validateExpense paid)" unfolding paid_def by (rule rent_valid)
  have c: "createServiceClient ledger_down = Inr ()" by (simp add: ledger_down_def)
  have e: "employee_lookup (Some ''11111111-1111-1111-1111-111111111111'') ledger_down = Inr alice"
    by (simp add: ledger_down_def)
  have l: "expense_lookup ''e1'' ledger_down = Inr lunch"
    by (simp add: ledger_down_def)
  have w: "with_default_status paid = paid"
    by (simp add: with_default_status_def paid_def falsy_str_def)
  have f: "faults ledger_down InsertExpense = None" "faults ledger_down UpdateExpense = None"
    "faults ledger_down InsertTransaction =
       Some \<lparr>err_message = ''permission denied for table transactions'',
             err_code = Some ''42501''\<rparr>"
    by (simp_all add: ledger_down_def)
  have ps: "payment_status paid = Some ''completed''"
    "employee_id paid = Some ''11111111-1111-1111-1111-111111111111''"
    by (simp_all add: paid_def rent_def)
  have ls: "payment_status lunch = Some ''pending''"
    "employee_id (apply_updates settle lunch) = Some ''11111111-1111-1111-1111-111111111111''"
    "payment_status settle = Some ''completed''"
    by (simp_all add: lunch_def apply_updates_def settle_def supplied_def)
  have 1: "InsertTransaction \<in>
      set (new_calls ledger_down (snd (createExpense paid ''user-1'' ledger_down)))"
    using e f ps
    by (simp add: createExpense_run [OF c v] Let_def w ledger_write_def new_calls_def)
  have 2: "InsertTransaction \<in>
      set (new_calls ledger_down (snd (updateExpense ''e1'' settle ledger_down)))"
    using e f l ls
    by (simp add: updateExpense_run [OF c settle_valid] Let_def ledger_write_def new_calls_def)
  show ?thesis
    using ledger_failure_not_surfaced
      [where w = ledger_down and p = paid and u = "''user-1''" and i = "''e1''"
         and p' = settle
         and err = "\<lparr>err_message = ''permission denied for table transactions'',
                      err_code = Some ''42501''\<rparr>"]
      1 2 f(3)
    by simp
qed

subsection \<open>The default payment status\<close>

lemma with_default_status_omitted:
  "payment_status p = None \<Longrightarrow>
   with_default_status p = p\<lparr>payment_status := Some ''pending''\<rparr>"
  by (simp add: with_default_status_def falsy_str_def)

lemma createExpense_omitted_status:
  assumes o: "payment_status p = None"
  shows "ledger_effect w (snd (createExpense p u w)) None \<and>
    (\<forall>r \<in> set (new_expenses w (snd (createExpense p u w))).
       payment_status r = Some ''pending'')"
proof (cases "createServiceClient w")
  case (Inl e)
  then show ?thesis
    by (simp add: createExpense_no_client ledger_effect_refl new_expenses_def)
next
  case (Inr x)
  then have c: "createServiceClient w = Inr ()" by simp
  show ?thesis
  proof (cases "isValid (validateExpense p)")
    case False
    with c show ?thesis
      by (simp add: createExpense_invalid ledger_effect_refl new_expenses_def)
  next
    case True
    show ?thesis
    proof (cases "faults w InsertExpense")
      case (Some e)
      then show ?thesis
        by (simp add: createExpense_run [OF c True] Let_def new_expenses_def
            ledger_effect_None [where cs = "[InsertExpense]"])
    next
      case None
      then show ?thesis
        by (simp add: createExpense_run [OF c True] Let_def new_expenses_def
            with_default_status_omitted [OF o]
            ledger_effect_None [where cs = "[InsertExpense, SelectEmployeeById]"]
            split: sum.splits)
    qed
  qed
qed

text \<open>
  Claim C8, as amended. For a payload that omits the payment status, \<^verbatim>\<open>createExpense\<close>
  issues no insert into the ledger and writes no transaction, and every expense it stores
  has the payment status pending. When the payload is valid, the store accepts the insert
  and the lookup of the employee of the payload succeeds, the answer is 201 with the stored
  expense, whose payment status is pending.
\<close>

theorem create_defaults_to_pending:
  "payment_status p = None \<longrightarrow>
     ledger_effect w (snd (createExpense p u w)) None \<and>
     (\<forall>r \<in> set (new_expenses w (snd (createExpense p u w))).
        payment_status r = Some ''pending'') \<and>
     (isValid (validateExpense p) \<and> createServiceClient w = Inr () \<and>
      faults w InsertExpense = None \<and> employee_lookup (employee_id p) w = Inr emp \<longrightarrow>
        fst (createExpense p u w) =
          Inr \<lparr>resp_status = 201,
               resp_body =
                 Data (ExpenseWithEmployee
                         (new_row (p\<lparr>payment_status := Some ''pending''\<rparr>) w) (Some emp))\<rparr> \<and>
        expenses (snd (createExpense p u w)) =
          expenses w @ [new_row (p\<lparr>payment_status := Some ''pending''\<rparr>) w] \<and>
        payment_status (new_row (p\<lparr>payment_status := Some ''pending''\<rparr>) w) =
          Some ''pending'')"
proof (intro impI conjI)
  assume o: "payment_status p = None"
  from createExpense_omitted_status [OF o, of w u]
  show "ledger_effect w (snd (createExpense p u w)) None"
    and "\<forall>r \<in> set (new_expenses w (snd (createExpense p u w))).
        payment_status r = Some ''pending''"
    by simp_all
  assume a: "isValid (validateExpense p) \<and> createServiceClient w = Inr () \<and>
      faults w InsertExpense = None \<and> employee_lookup (employee_id p) w = Inr emp"
  then have v: "isValid (validateExpense p)" and c: "createServiceClient w = Inr ()"
    by simp_all
  from a show "fst (createExpense p u w) =
          Inr \<lparr>resp_status = 201,
               resp_body =
                 Data (ExpenseWithEmployee
                         (new_row (p\<lparr>payment_status := Some ''pending''\<rparr>) w) (Some emp))\<rparr>"
    by (simp add: createExpense_run [OF c v] Let_def with_default_status_omitted [OF o]
        success_def)
  from a show "expenses (snd (createExpense p u w)) =
          expenses w @ [new_row (p\<lparr>payment_status := Some ''pending''\<rparr>) w]"
    by (simp add: createExpense_run [OF c v] Let_def with_default_status_omitted [OF o])
  show "payment_status (new_row (p\<lparr>payment_status := Some ''pending''\<rparr>) w) =
          Some ''pending''"
    by simp
qed

theorem create_defaults_to_pending_witness:
  "payment_status rent = None \<and> isValid (validateExpense rent) \<and>
   fst (createExpense rent ''user-1'' shop) =
     Inr \<lparr>resp_status = 201,
          resp_body =
            Data (ExpenseWithEmployee
                    (new_row (rent\<lparr>payment_status := Some ''pending''\<rparr>) shop) (Some alice))\<rparr> \<and>
   expenses (snd (createExpense rent ''user-1'' shop)) =
     [lunch, new_row (rent\<lparr>payment_status := Some ''pending''\<rparr>) shop] \<and>
   transactions (snd (createExpense rent ''user-1'' shop)) = []"
proof -
  have o: "payment_status rent = None" by (simp add: rent_def)
  have "rent\<lparr>payment_status := None\<rparr> = rent" by (simp add: rent_def)
  then have v: "isValid (validateExpense rent)" using rent_valid [of None] by simp
  have c: "createServiceClient shop = Inr ()" using shop_client [of "\<lambda>c. None"]
    by (simp add: shop_self)
  have e: "employee_lookup (employee_id rent) shop = Inr alice"
    using shop_alice [of "\<lambda>c. None"] by (simp add: shop_self rent_def)
  have f: "faults shop InsertExpense = None" "expenses shop = [lunch]" "transactions shop = []"
    by (simp_all add: shop_def)
  show ?thesis
    using create_defaults_to_pending [of rent shop "''user-1''" alice]
    by (simp add: o v c e f ledger_effect_def)
qed

text \<open>
  The claim as stated fails for a valid payload whose employee id is well formed and names
  no employee: the lookup of the employee after the insert answers with the error of
  \<^verbatim>\<open>.single()\<close>, and the response is 400, not 201.
\<close>

theorem unknown_employee_counterexample:
  "isValid (validateExpense stranger) \<and> payment_status stranger = None \<and>
   fst (createExpense stranger ''user-1'' shop) =
     Inr \<lparr>resp_status = 400,
          resp_body =
            Error ''JSON object requested, multiple (or no) rows returned''
              (Some \<lparr>err_message = ''JSON object requested, multiple (or no) rows returned'',
                     err_code = Some ''PGRST116''\<rparr>)\<rparr>"
proof -
  have v: "isValid (validateExpense stranger)"
    by (simp add: validateExpense_def stranger_def rent_def falsy_str_def falsy_num_def
        num_le_zero_def uuidRegex_test_opt_def uuidRegex_test_shape uuid_shape_def
        hex_digit_def)
  have o: "payment_status stranger = None" by (simp add: stranger_def rent_def)
  have c: "createServiceClient shop = Inr ()" using shop_client [of "\<lambda>c. None"]
    by (simp add: shop_self)
  have e: "employee_lookup (employee_id stranger) shop =
      Inl \<lparr>err_message = ''JSON object requested, multiple (or no) rows returned'',
           err_code = Some ''PGRST116''\<rparr>"
    by (simp add: employee_lookup_def shop_def alice_def stranger_def single_def)
  have f: "faults shop InsertExpense = None" by (simp add: shop_def)
  show ?thesis
    using e f
    by (simp add: v o createExpense_run [OF c v] Let_def with_default_status_omitted [OF o]
        failure_def)
qed

subsection \<open>Failure of the employee lookup\<close>

lemma shop_faults_self [simp]:
  "createServiceClient lookups_down = Inr ()"
  "expense_lookup ''e1'' lookups_down = Inr lunch"
  by (simp_all add: lookups_down_def)

text \<open>
  Claim C9. When the expense query of \<^verbatim>\<open>getExpenses\<close> succeeds and the store fails the
  batch lookup of the employees, the answer is 200 with the bare expenses of the query.
  When \<^verbatim>\<open>getExpenseById\<close> finds the expense and the lookup of its employee fails, the
  answer is the error of that lookup, with status 400.
\<close>

theorem employee_lookup_failure_asymmetry:
  "(createServiceClient w = Inr () \<and> faults w SelectExpenses = None \<and>
    faults w SelectEmployeesIn = Some e \<longrightarrow>
      fst (getExpenses f w) =
        Inr \<lparr>resp_status = 200,
             resp_body = Data (Expenses (query_expenses f (expenses w)))\<rparr>) \<and>
   (createServiceClient w = Inr () \<and> expense_lookup i w = Inr x \<and>
    employee_lookup (employee_id x) w = Inl e' \<longrightarrow>
      fst (getExpenseById i w) =
        Inr \<lparr>resp_status = 400, resp_body = Error (err_message e') (Some e')\<rparr>)"
proof (intro conjI impI)
  assume a: "createServiceClient w = Inr () \<and> faults w SelectExpenses = None \<and>
    faults w SelectEmployeesIn = Some e"
  then have c: "createServiceClient w = Inr ()" by simp
  from a show "fst (getExpenses f w) =
        Inr \<lparr>resp_status = 200,
             resp_body = Data (Expenses (query_expenses f (expenses w)))\<rparr>"
    by (simp add: getExpenses_run [OF c] Let_def)
next
  assume a: "createServiceClient w = Inr () \<and> expense_lookup i w = Inr x \<and>
    employee_lookup (employee_id x) w = Inl e'"
  then have c: "createServiceClient w = Inr ()" by simp
  from a show "fst (getExpenseById i w) =
        Inr \<lparr>resp_status = 400, resp_body = Error (err_message e') (Some e')\<rparr>"
    by (simp add: getExpenseById_run [OF c] failure_def)
qed

theorem employee_lookup_failure_asymmetry_witness:
  "fst (getExpenses no_filters lookups_down) =
     Inr \<lparr>resp_status = 200, resp_body = Data (Expenses [lunch])\<rparr> \<and>
   SelectEmployeesIn \<in> set (new_calls lookups_down (snd (getExpenses no_filters lookups_down))) \<and>
   fst (getExpenseById ''e1'' lookups_down) =
     Inr \<lparr>resp_status = 400,
          resp_body =
            Error ''canceling statement due to statement timeout''
              (Some \<lparr>err_message = ''canceling statement due to statement timeout'',
                     err_code = Some ''57014''\<rparr>)\<rparr>"
proof -
  let ?e = "\<lparr>err_message = ''canceling statement due to statement timeout'',
             err_code = Some ''57014''\<rparr>"
  have f: "faults lookups_down SelectExpenses = None"
    "faults lookups_down SelectEmployeesIn = Some ?e"
    "expenses lookups_down = [lunch]"
    by (simp_all add: lookups_down_def shop_def)
  have q: "query_expenses no_filters [lunch] = [lunch]"
    by (simp add: query_expenses_def no_filters_def order_by_date_desc_def eq_filter_def
        gte_filter_def lte_filter_def falsy_str_def)
  have ids: "employeeIds_of [lunch] \<noteq> []"
    by (simp add: employeeIds_of_def lunch_def)
  have l: "employee_lookup (employee_id lunch) lookups_down = Inl ?e"
    by (simp add: employee_lookup_def lookups_down_def)
  have 1: "SelectEmployeesIn \<in>
      set (new_calls lookups_down (snd (getExpenses no_filters lookups_down)))"
    using f q ids by (simp add: getExpenses_run Let_def new_calls_def)
  show ?thesis
    using employee_lookup_failure_asymmetry
      [where w = lookups_down and e = ?e and f = no_filters and i = "''e1''" and x = lunch
         and e' = ?e]
      1
    by (simp add: f q l)
qed

subsection \<open>Partial updates\<close>

text \<open>
  The update of the store sets the fields the payload supplies and keeps the others, and
  never changes the id or the creation time.
\<close>

lemma apply_updates_fields:
  "payment_status (apply_updates u r) =
     (case payment_status u of None \<Rightarrow> payment_status r | Some v \<Rightarrow> Some v)"
  "payment_method (apply_updates u r) =
     (case payment_method u of None \<Rightarrow> payment_method r | Some v \<Rightarrow> Some v)"
  "invoice_number (apply_updates u r) =
     (case invoice_number u of None \<Rightarrow> invoice_number r | Some v \<Rightarrow> Some v)"
  "notes (apply_updates u r) = (case notes u of None \<Rightarrow> notes r | Some v \<Rightarrow> Some v)"
  "expense_id (apply_updates u r) = expense_id r"
  "created_at (apply_updates u r) = created_at r"
  by (simp_all add: apply_updates_def supplied_def)

lemma update_requires_date:
  assumes "createServiceClient w = Inr ()" and "\<not> present (date p)"
  shows "updateExpense i p w = (failure (Error_of ''Expense date is required''), w)"
proof -
  have v: "validateExpense p = invalid ''Expense date is required''"
    using assms(2) by (simp add: validateExpense_def falsy_str_present)
  then have "\<not> isValid (validateExpense p)" by (simp add: invalid_def)
  from updateExpense_invalid [OF assms(1) this] v show ?thesis
    by (simp add: invalid_def)
qed

text \<open>
  Claim C2. The claim expects \<^verbatim>\<open>updateExpense\<close> to accept a payload that supplies only
  some of the fields. The operation validates the payload with \<^verbatim>\<open>validateExpense\<close>, which
  requires the date, the amount, the category, the description and the employee id: the
  payload that supplies only the payment status, sent for the stored expense \<^verbatim>\<open>e1\<close>, is
  answered 400 "Expense date is required", and the world is unchanged.
\<close>

theorem partial_update_rejected:
  "updateExpense ''e1'' status_only shop =
     (Inr \<lparr>resp_status = 400,
           resp_body =
             Error ''Expense date is required''
               (Some (Error_of ''Expense date is required''))\<rparr>,
      shop) \<and>
   stored shop ''e1'' = Some lunch \<and>
   validateExpense status_only = invalid ''Expense date is required''"
proof -
  have c: "createServiceClient shop = Inr ()" using shop_client [of "\<lambda>c. None"]
    by (simp add: shop_self)
  have d: "\<not> present (date status_only)" by (simp add: status_only_def present_def)
  have l: "expense_lookup ''e1'' shop = Inr lunch"
    using shop_lunch [of "\<lambda>c. None"] by (simp add: shop_self)
  have v: "validateExpense status_only = invalid ''Expense date is required''"
    using d by (simp add: validateExpense_def falsy_str_present)
  show ?thesis
    using update_requires_date [OF c d, of "''e1''"] expense_lookup_stored [OF l] v
    by (simp add: failure_def Error_of_def)
qed

subsection \<open>Delete\<close>

text \<open>
  The three outcomes of \<^verbatim>\<open>deleteExpense\<close> when the store answers: an expense with a
  completed payment is refused with 400 and stays; an unknown id is answered Not-Found; any
  other expense is removed, and the answer is the error of building the 204 response.
\<close>

lemma deleteExpense_outcomes:
  assumes "createServiceClient w = Inr ()"
  shows
    "expense_lookup i w = Inr x \<Longrightarrow> payment_status x = Some ''completed'' \<Longrightarrow>
       fst (deleteExpense i w) =
         failure (Error_of ''Cannot delete an expense with completed payment'') \<and>
       expenses (snd (deleteExpense i w)) = expenses w"
    "faults w SelectExpenseById = None \<Longrightarrow>
     filter (\<lambda>r. expense_id r = i) (expenses w) = [] \<Longrightarrow>
       fst (deleteExpense i w) = not_found \<and> expenses (snd (deleteExpense i w)) = expenses w"
    "expense_lookup i w = Inr x \<Longrightarrow> payment_status x \<noteq> Some ''completed'' \<Longrightarrow>
     faults w DeleteExpense = None \<Longrightarrow>
       fst (deleteExpense i w) =
         failure (Error_of ''Response with null body status cannot have body'') \<and>
       expenses (snd (deleteExpense i w)) = filter (\<lambda>r. expense_id r \<noteq> i) (expenses w)"
  by (simp_all add: deleteExpense_run [OF assms] expense_lookup_def single_def
      lookup_failure_def)

text \<open>
  Claim C5. The claim expects status 204 for the delete of an expense whose payment is not
  completed. \<^verbatim>\<open>deleteExpense\<close> removes the row and then returns
  \<^verbatim>\<open>successResponse(null, 204)\<close>, a response with a body and the null body status 204; the
  constructor throws, the \<^verbatim>\<open>catch\<close> of the operation answers with the error, and for the
  pending expense \<^verbatim>\<open>e1\<close> the answer is 400 after the row is gone.
\<close>

theorem delete_answers_400_after_removing:
  "fst (deleteExpense ''e1'' shop) =
     Inr \<lparr>resp_status = 400,
          resp_body =
            Error ''Response with null body status cannot have body''
              (Some (Error_of ''Response with null body status cannot have body''))\<rparr> \<and>
   expenses (snd (deleteExpense ''e1'' shop)) = [] \<and>
   stored shop ''e1'' = Some lunch \<and>
   payment_status lunch = Some ''pending'' \<and>
   successResponse Null 204 =
     Inl (Error_of ''Response with null body status cannot have body'')"
proof -
  have c: "createServiceClient shop = Inr ()" using shop_client [of "\<lambda>c. None"]
    by (simp add: shop_self)
  have l: "expense_lookup ''e1'' shop = Inr lunch"
    using shop_lunch [of "\<lambda>c. None"] by (simp add: shop_self)
  have p: "payment_status lunch = Some ''pending''" by (simp add: lunch_def)
  then have n: "payment_status lunch \<noteq> Some ''completed''" by simp
  have f: "faults shop DeleteExpense = None" by (simp add: shop_def)
  have e: "filter (\<lambda>r. expense_id r \<noteq> ''e1'') (expenses shop) = []"
    by (simp add: shop_def lunch_def)
  show ?thesis
    using deleteExpense_outcomes(3) [OF c l n f] expense_lookup_stored [OF l] p e
    by (simp add: failure_def Error_of_def successResponse_204)
qed

end
